theory Spec2Isabelle
  imports Main
begin

section \<open>Strings and JavaScript values\<close>

text \<open>
  The clients of \<^verbatim>\<open>lib/npm.js\<close> and \<^verbatim>\<open>lib/github-client.js\<close> build command lines
  and messages from template literals. A JavaScript string is a \<open>string\<close>. Where the code
  only tests a value for truth or prints it when it is there, \<open>undefined\<close> and \<open>null\<close> are
  both \<open>None\<close>, and such a value is falsy when it is \<open>None\<close> or the empty string.
\<close>

definition truthy :: "string option \<Rightarrow> bool" where
  "truthy v = (case v of None \<Rightarrow> False | Some s \<Rightarrow> s \<noteq> [])"

text \<open>
  Where the code tells \<open>undefined\<close> from \<open>null\<close> (a default parameter replaces
  \<open>undefined\<close> only) or handles a value that is a number or a string (a pre-release
  component, the value that \<^verbatim>\<open>_.get\<close> reads), the value is a \<open>js\<close>. \<open>Other\<close> is any
  value that is not \<open>undefined\<close>, \<open>null\<close>, a boolean, an integer or a string (an
  object, a function), given as the string it prints as; such a value is truthy.
\<close>

datatype js = Undefined | Null | Bool bool | Num int | Str string | Other string

definition truthy_js :: "js \<Rightarrow> bool" where
  "truthy_js v =
     (case v of
        Undefined \<Rightarrow> False | Null \<Rightarrow> False | Bool b \<Rightarrow> b | Num n \<Rightarrow> n \<noteq> 0
      | Str s \<Rightarrow> s \<noteq> [] | Other s \<Rightarrow> True)"

definition digit_char :: "nat \<Rightarrow> char" where
  "digit_char n = ''0123456789'' ! n"

fun string_of_nat :: "nat \<Rightarrow> string" where
  "string_of_nat n =
     (if n < 10 then [digit_char n] else string_of_nat (n div 10) @ [digit_char (n mod 10)])"

declare string_of_nat.simps [simp del]

definition string_of_int :: "int \<Rightarrow> string" where
  "string_of_int i = (if i < 0 then CHR 0x2D # string_of_nat (nat (- i)) else string_of_nat (nat i))"

text \<open>\<open>starts_with p s\<close> is \<^verbatim>\<open>s.startsWith(p)\<close>; \<open>contains p s\<close> is \<^verbatim>\<open>/p/.test(s)\<close> for a
  pattern \<open>p\<close> without metacharacters.\<close>

fun starts_with :: "string \<Rightarrow> string \<Rightarrow> bool" where
  "starts_with [] s = True"
| "starts_with (p # ps) [] = False"
| "starts_with (p # ps) (c # cs) = (p = c \<and> starts_with ps cs)"

fun contains :: "string \<Rightarrow> string \<Rightarrow> bool" where
  "contains p [] = (p = [])"
| "contains p (c # cs) = (starts_with p (c # cs) \<or> contains p cs)"

section \<open>The semver dependency\<close>

text \<open>
  \<^verbatim>\<open>semver.prerelease(version)\<close> is a function of the \<^verbatim>\<open>semver\<close> package, not of this
  repository. It returns the array of pre-release components of a valid version, numeric
  components as numbers, and \<open>null\<close> for an invalid version or one with no pre-release
  part. \<open>getTag\<close> below takes it as a parameter; \<open>semver_prerelease\<close> is a model of the
  package's strict grammar, used to evaluate \<open>getTag\<close> on concrete versions.
\<close>

definition is_digit :: "char \<Rightarrow> bool" where
  "is_digit c = (let n = (of_char c :: int) in 48 \<le> n \<and> n \<le> 57)"

definition is_letter :: "char \<Rightarrow> bool" where
  "is_letter c = (let n = (of_char c :: int) in (65 \<le> n \<and> n \<le> 90) \<or> (97 \<le> n \<and> n \<le> 122))"

definition is_ident_char :: "char \<Rightarrow> bool" where
  "is_ident_char c = (is_digit c \<or> is_letter c \<or> c = CHR ''-'')"

definition int_of_digits :: "string \<Rightarrow> int" where
  "int_of_digits ds = foldl (\<lambda>a c. 10 * a + (of_char c - 48)) 0 ds"

definition MAX_SAFE_INTEGER :: int where
  "MAX_SAFE_INTEGER = 9007199254740991"

text \<open>The package's \<^verbatim>\<open>0|[1-9]\d*\<close>.\<close>

definition numeric_identifier :: "string \<Rightarrow> bool" where
  "numeric_identifier s = (s \<noteq> [] \<and> list_all is_digit s \<and> (s = ''0'' \<or> hd s \<noteq> CHR ''0''))"

text \<open>The package's \<^verbatim>\<open>\d*[a-zA-Z-][a-zA-Z0-9-]*\<close>.\<close>

definition non_numeric_identifier :: "string \<Rightarrow> bool" where
  "non_numeric_identifier s = (list_all is_ident_char s \<and> \<not> list_all is_digit s)"

definition prerelease_identifier :: "string \<Rightarrow> bool" where
  "prerelease_identifier s = (numeric_identifier s \<or> non_numeric_identifier s)"

definition build_identifier :: "string \<Rightarrow> bool" where
  "build_identifier s = (s \<noteq> [] \<and> list_all is_ident_char s)"

text \<open>\<open>split_on c s\<close> is \<^verbatim>\<open>s.split(c)\<close>; \<open>break_at c s\<close> cuts \<open>s\<close> at the first \<open>c\<close>.\<close>

fun split_on :: "char \<Rightarrow> string \<Rightarrow> string list" where
  "split_on c [] = [[]]"
| "split_on c (x # xs) =
     (if x = c then [] # split_on c xs
      else (case split_on c xs of [] \<Rightarrow> [[x]] | w # ws \<Rightarrow> (x # w) # ws))"

fun break_at :: "char \<Rightarrow> string \<Rightarrow> string \<times> string option" where
  "break_at c [] = ([], None)"
| "break_at c (x # xs) =
     (if x = c then ([], Some xs)
      else (case break_at c xs of (a, b) \<Rightarrow> (x # a, b)))"

definition to_component :: "string \<Rightarrow> js" where
  "to_component s =
     (if s \<noteq> [] \<and> list_all is_digit s \<and> int_of_digits s < MAX_SAFE_INTEGER
      then Num (int_of_digits s) else Str s)"

definition semver_prerelease :: "string \<Rightarrow> js list option" where
  "semver_prerelease v =
     (if length v > 256 then None
      else
        let v1 = (if starts_with ''v'' v then tl v else v);
            (body, build) = break_at (CHR ''+'') v1;
            (main, pre) = break_at (CHR ''-'') body;
            nums = split_on (CHR ''.'') main
        in
          if length nums \<noteq> 3 \<or> \<not> list_all numeric_identifier nums
             \<or> \<not> list_all (\<lambda>n. int_of_digits n \<le> MAX_SAFE_INTEGER) nums
             \<or> (case build of None \<Rightarrow> False
                 | Some b \<Rightarrow> \<not> list_all build_identifier (split_on (CHR ''.'') b))
          then None
          else (case pre of
                  None \<Rightarrow> None
                | Some p \<Rightarrow>
                    if list_all prerelease_identifier (split_on (CHR ''.'') p)
                    then Some (map to_component (split_on (CHR ''.'') p))
                    else None))"

section \<open>The registry publish client (\<^verbatim>\<open>lib/npm.js\<close>)\<close>

definition DEFAULT_TAG :: string where
  "DEFAULT_TAG = ''latest''"

definition NPM_BASE_URL :: string where
  "NPM_BASE_URL = ''https://www.npmjs.com/package/''"

record tag_args =
  a_tag :: js
  a_version :: "string option"
  a_isPreRelease :: bool

text \<open>
  \<^verbatim>\<open>getTag({ tag = DEFAULT_TAG, version, isPreRelease } = {})\<close>, for an argument that is
  an object. The default of the parameter \<open>tag\<close> replaces \<open>undefined\<close> only: a tag that
  is \<open>null\<close> stays \<open>null\<close>. The version is a string, or absent (\<open>None\<close>). The result is
  the tag as it was supplied, or the first pre-release component, which the package gives
  as a number or a string; \<^verbatim>\<open>_.get(components, 0, tag)\<close> is the first component, and
  \<open>tag\<close> when \<open>components\<close> is \<open>null\<close>, has no element \<open>0\<close>, or has the element
  \<open>undefined\<close> there.
\<close>

definition getTag :: "(string \<Rightarrow> js list option) \<Rightarrow> tag_args \<Rightarrow> js" where
  "getTag prerelease a =
     (let tag = (if a_tag a = Undefined then Str DEFAULT_TAG else a_tag a) in
      if \<not> a_isPreRelease a \<or> \<not> truthy (a_version a) then tag
      else (case prerelease (the (a_version a)) of
              None \<Rightarrow> tag
            | Some [] \<Rightarrow> tag
            | Some (c # cs) \<Rightarrow> if c = Undefined then tag else c))"

text \<open>
  A call of \<open>getTag\<close> with no argument, with \<open>null\<close>, or with an object. With no
  argument the default \<^verbatim>\<open>{}\<close> of the parameter is destructured; \<open>null\<close> is not replaced
  by the default and cannot be destructured, so the call throws a \<^verbatim>\<open>TypeError\<close>.
\<close>

datatype tag_call = NoArgument | NullArgument | ObjectArgument tag_args

datatype exception = TypeError

definition getTag_call :: "(string \<Rightarrow> js list option) \<Rightarrow> tag_call \<Rightarrow> exception + js" where
  "getTag_call prerelease arg =
     (case arg of
        NoArgument \<Rightarrow>
          Inr (getTag prerelease \<lparr>a_tag = Undefined, a_version = None, a_isPreRelease = False\<rparr>)
      | NullArgument \<Rightarrow> Inl TypeError
      | ObjectArgument a \<Rightarrow> Inr (getTag prerelease a))"

text \<open>
  The constructor merges the options of the registry section with the options shared by
  all clients (\<^verbatim>\<open>sharedOptions\<close> of \<^verbatim>\<open>lib/tasks.js\<close>).
\<close>

record shared_options =
  isInteractive :: bool
  isVerbose :: bool
  isDryRun :: bool

record npm_options = shared_options +
  name :: string
  publishPath :: "string option"
  access :: "string option"
  tag :: js
  otp :: "string option"

datatype log_entry =
    LogExec string | LogDry | LogWarn string | LogVerbose string | LogInfo string | LogLog string

text \<open>The warnings among the entries of a log.\<close>

fun warnings :: "log_entry list \<Rightarrow> string list" where
  "warnings [] = []"
| "warnings (LogWarn m # es) = m # warnings es"
| "warnings (e # es) = warnings es"

text \<open>
  A call of \<^verbatim>\<open>shell.run(command, { isReadOnly, verbose })\<close>. The shell is a collaborator
  outside the client: \<open>sh k cmd\<close> is what the \<open>k\<close>-th command run by this client does,
  \<open>None\<close> when it succeeds and \<open>Some err\<close> when it rejects with \<open>err\<close> (as the string
  the regular expression test sees).
\<close>

record shell_call =
  command :: string
  isReadOnly :: bool
  verbose :: bool

type_synonym shell = "nat \<Rightarrow> string \<Rightarrow> string option"

record npm =
  options :: npm_options
  isPublished :: bool
  npm_log :: "log_entry list"
  shell_calls :: "shell_call list"
  otp_prompts :: nat

definition getPackageUrl :: "npm \<Rightarrow> string" where
  "getPackageUrl c = NPM_BASE_URL @ name (options c)"

record publish_args =
  p_tag :: js
  p_version :: "string option"
  p_isPreRelease :: bool
  p_otp :: "string option"
  p_otpPrompt :: bool

text \<open>A value as a template literal prints it.\<close>

definition js_to_string :: "js \<Rightarrow> string" where
  "js_to_string v =
     (case v of
        Undefined \<Rightarrow> ''undefined''
      | Null \<Rightarrow> ''null''
      | Bool b \<Rightarrow> (if b then ''true'' else ''false'')
      | Num n \<Rightarrow> string_of_int n
      | Str s \<Rightarrow> s
      | Other s \<Rightarrow> s)"

definition OTP_WARNING :: string where
  "OTP_WARNING = ''The provided OTP is incorrect or has expired.''"

text \<open>The parameters of \<^verbatim>\<open>publish\<close> with their defaults applied
  (\<^verbatim>\<open>tag = this.options.tag\<close>, \<^verbatim>\<open>otp = this.options.otp\<close>), and the command line.\<close>

definition effective_tag :: "npm \<Rightarrow> publish_args \<Rightarrow> js" where
  "effective_tag c a = (if p_tag a = Undefined then tag (options c) else p_tag a)"

definition effective_otp :: "npm \<Rightarrow> publish_args \<Rightarrow> string option" where
  "effective_otp c a = (case p_otp a of None \<Rightarrow> otp (options c) | Some t \<Rightarrow> Some t)"

definition publish_command :: "(string \<Rightarrow> js list option) \<Rightarrow> npm \<Rightarrow> publish_args \<Rightarrow> string" where
  "publish_command prerelease c a =
     (let publishPath' = (case publishPath (options c) of None \<Rightarrow> ''.'' | Some p \<Rightarrow> p);
          resolvedTag = getTag prerelease
            \<lparr>a_tag = effective_tag c a, a_version = p_version a, a_isPreRelease = p_isPreRelease a\<rparr>;
          isScopedPkg = starts_with ''@'' (name (options c));
          accessArg = (if isScopedPkg \<and> truthy (access (options c))
                       then ''--access '' @ the (access (options c)) else []);
          otpArg = (if truthy (effective_otp c a) then ''--otp '' @ the (effective_otp c a) else []);
          dryRunArg = (if isDryRun (options c) then ''--dry-run'' else [])
      in ''npm publish '' @ publishPath' @ '' --tag '' @ js_to_string resolvedTag @ '' ''
           @ accessArg @ '' '' @ otpArg @ '' '' @ dryRunArg)"

text \<open>
  \<^verbatim>\<open>publish\<close>. The prompt is a collaborator: \<^verbatim>\<open>otpPrompt(task)\<close> asks the operator for a
  code and calls \<open>task\<close> with the answer. \<open>answers\<close> are the codes the operator types at
  the successive prompts; when a prompt is shown and the operator never answers, the call
  never settles, which is the result \<open>None\<close>. Otherwise the result is \<open>Inr ()\<close> when the
  promise resolves and \<open>Inl err\<close> when it rejects with \<open>err\<close>, with the client after the
  call. \<^verbatim>\<open>this.isVerbose\<close> is never assigned on the client, so the command is verbose
  exactly in dry-run mode. \<open>otp_prompts\<close> counts the prompts shown.
\<close>

fun publish :: "(string \<Rightarrow> js list option) \<Rightarrow> shell \<Rightarrow> npm \<Rightarrow> publish_args \<Rightarrow> string list
    \<Rightarrow> ((string + unit) \<times> npm) option" where
  "publish prerelease sh c a answers =
     (let cmd = publish_command prerelease c a;
          c1 = c\<lparr>shell_calls := shell_calls c @
                 [\<lparr>command = cmd, isReadOnly = True, verbose = isDryRun (options c)\<rparr>]\<rparr>
      in case sh (length (shell_calls c)) cmd of
           None \<Rightarrow> Some (Inr (), c1\<lparr>isPublished := True\<rparr>)
         | Some err \<Rightarrow>
             if contains ''one-time pass'' err then
               let c2 = (if effective_otp c a \<noteq> None
                         then c1\<lparr>npm_log := npm_log c1 @ [LogWarn OTP_WARNING]\<rparr> else c1)
               in if isInteractive (options c) \<and> p_otpPrompt a then
                    (case answers of
                       [] \<Rightarrow> None
                     | ans # rest \<Rightarrow>
                         publish prerelease sh (c2\<lparr>otp_prompts := Suc (otp_prompts c2)\<rparr>)
                           (a\<lparr>p_tag := effective_tag c a, p_otp := Some ans\<rparr>) rest)
                  else Some (Inl err, c2)
             else Some (Inl err, c1))"

declare publish.simps [simp del]

section \<open>The remote release client (\<^verbatim>\<open>lib/github-client.js\<close>)\<close>

text \<open>
  What a rejected call throws: an \<^verbatim>\<open>Error\<close> object with its \<open>status\<close> (absent on an
  error that is not an HTTP error) and its \<open>message\<close>, or a value that is not an
  \<^verbatim>\<open>Error\<close>, given as the string it prints as.
\<close>

datatype thrown = ErrorObj "int option" string | NonError string

definition status :: "thrown \<Rightarrow> int option" where
  "status err = (case err of ErrorObj st m \<Rightarrow> st | NonError v \<Rightarrow> None)"

datatype error =
    GithubTokenError string
  | GithubClientError string
  | InvalidVersionError
  | RetriesExhausted "thrown list"
  | Rejected string
  | Uncaught thrown

definition NO_RETRIES_NEEDED :: "int list" where
  "NO_RETRIES_NEEDED = [400, 401, 404, 422]"

text \<open>\<^verbatim>\<open>_.includes(NO_RETRIES_NEEDED, status)\<close>; an absent status is in no list of numbers.\<close>

definition includes_status :: "int list \<Rightarrow> int option \<Rightarrow> bool" where
  "includes_status xs st = (case st of None \<Rightarrow> False | Some n \<Rightarrow> n \<in> set xs)"

text \<open>\<^verbatim>\<open>message.replace(/[\n\r]+/g, ' ')\<close>: every maximal run of line breaks becomes one
  space. The flag says that the previous character was a line break.\<close>

fun replace_breaks :: "bool \<Rightarrow> string \<Rightarrow> string" where
  "replace_breaks b [] = []"
| "replace_breaks b (c # cs) =
     (if c = CHR 0x0A \<or> c = CHR 0x0D
      then (if b then replace_breaks True cs else CHR 0x20 # replace_breaks True cs)
      else c # replace_breaks False cs)"

definition parseErrorMessage :: "thrown \<Rightarrow> string" where
  "parseErrorMessage err =
     (case err of
        ErrorObj st m \<Rightarrow>
          (case st of None \<Rightarrow> ''undefined'' | Some n \<Rightarrow> string_of_int n)
            @ '' ('' @ replace_breaks False m @ '')''
      | NonError v \<Rightarrow> v)"

record github_options = shared_options +
  release :: bool
  tokenRef :: string
  tagName :: string
  releaseName :: string
  draft :: bool
  assets :: "string option"
  host :: "string option"
  proxy :: "string option"
  timeout :: int

text \<open>\<^verbatim>\<open>this.repo\<close>, as the \<^verbatim>\<open>parse-repo\<close> package reads it from the remote url.\<close>

record repo =
  repo_host :: string
  repository :: string
  owner :: string
  project :: string

record api_client =
  baseUrl :: string
  client_timeout :: int
  client_proxy :: "string option"
  auth_token :: js

record create_request =
  rq_owner :: string
  rq_repo :: string
  rq_tag_name :: string
  rq_name :: string
  rq_body :: string
  rq_prerelease :: bool
  rq_draft :: bool

record upload_request =
  up_url :: "string option"
  up_file :: string
  up_name :: string
  up_content_type :: string
  up_content_length :: int

datatype request = CreateRelease create_request | UploadReleaseAsset upload_request

record release_data =
  rd_name :: string
  rd_tag_name :: string
  rd_html_url :: "string option"
  rd_upload_url :: "string option"
  rd_location :: string

record asset_data =
  browser_download_url :: string

datatype 'a outcome = Ok 'a | Fail thrown

text \<open>
  The world outside the client: the environment, the template function \<^verbatim>\<open>format\<close> of
  \<^verbatim>\<open>lib/util\<close> (a parameter: its file is not among the sources), the answers of the release
  host to the \<open>n\<close>-th attempt of a request, the files a glob matches, the content type of
  a file, what \<^verbatim>\<open>fs.statSync\<close> does on a file (it throws, or gives the size), and the
  working directory.

  \<open>process_env w k\<close> is \<^verbatim>\<open>process.env[k]\<close>: \<open>Str v\<close> for a variable \<open>k\<close> of the
  environment with the value \<open>v\<close>, \<open>Undefined\<close> when the environment has no property
  \<open>k\<close>. \<open>deep_get w p\<close> is what \<^verbatim>\<open>_.get(process.env, p)\<close> of the \<^verbatim>\<open>lodash\<close> package reads
  at a path \<open>p\<close> with a dot or with brackets that is not itself a property of the
  environment, such as the length of the value of a variable; the grammar of such paths
  and the members of a value are the package's and the runtime's. \<open>earliest w\<close> tells,
  among asset uploads that fail, which one fails first in time.
\<close>

record world =
  process_env :: "string \<Rightarrow> js"
  deep_get :: "string \<Rightarrow> js"
  format :: "string \<Rightarrow> string option \<Rightarrow> string"
  createRelease :: "nat \<Rightarrow> create_request \<Rightarrow> release_data outcome"
  uploadReleaseAsset :: "nat \<Rightarrow> upload_request \<Rightarrow> asset_data outcome"
  globby :: "string \<Rightarrow> string list"
  contentType :: "string \<Rightarrow> string option"
  statSync :: "string \<Rightarrow> thrown + int"
  earliest :: nat
  cwd :: string

record github =
  gh_options :: github_options
  gh_repo :: repo
  client :: "api_client option"
  version :: "string option"
  releaseUrl :: "string option"
  uploadUrl :: "string option"
  isReleased :: bool
  gh_log :: "log_entry list"
  requests :: "request list"

text \<open>
  \<^verbatim>\<open>_.get(process.env, path, defaultValue)\<close>. The package takes the path as one key when
  it is a plain name (\<^verbatim>\<open>/^\w*$/\<close>), when it has no dot and no bracket expression, or
  when it is itself a property of the object, and reads that property; \<open>one_key\<close> holds of
  the plain names, of the paths with no dot that lack one of the two brackets, and of the
  properties of the environment. Any other path is read by \<open>deep_get\<close>. The result is the
  default when the value read is \<open>undefined\<close>.
\<close>

definition is_word_char :: "char \<Rightarrow> bool" where
  "is_word_char c = (is_digit c \<or> is_letter c \<or> c = CHR ''_'')"

definition plain_name :: "string \<Rightarrow> bool" where
  "plain_name p = list_all is_word_char p"

definition one_key :: "world \<Rightarrow> string \<Rightarrow> bool" where
  "one_key w p =
     (plain_name p
      \<or> (CHR ''.'' \<notin> set p \<and> (CHR ''['' \<notin> set p \<or> CHR '']'' \<notin> set p))
      \<or> process_env w p \<noteq> Undefined)"

definition get_process_env :: "world \<Rightarrow> string \<Rightarrow> js \<Rightarrow> js" where
  "get_process_env w path defaultValue =
     (let result = (if one_key w path then process_env w path else deep_get w path)
      in if result = Undefined then defaultValue else result)"

definition token :: "world \<Rightarrow> github \<Rightarrow> js" where
  "token w c = get_process_env w (tokenRef (gh_options c)) Null"

definition validate :: "world \<Rightarrow> github \<Rightarrow> error + unit" where
  "validate w c =
     (if \<not> release (gh_options c) then Inr ()
      else if \<not> truthy_js (token w c) then Inl (GithubTokenError (tokenRef (gh_options c)))
      else Inr ())"

definition getGithubClient :: "world \<Rightarrow> github \<Rightarrow> api_client \<times> github" where
  "getGithubClient w c =
     (case client c of
        Some cl \<Rightarrow> (cl, c)
      | None \<Rightarrow>
          let host' = (if truthy (host (gh_options c)) then the (host (gh_options c))
                       else repo_host (gh_repo c));
              isGitHub = (host' = ''github.com'');
              cl = \<lparr>baseUrl = ''https://'' @ (if isGitHub then ''api.github.com'' else host')
                                 @ (if isGitHub then [] else ''/api/v3''),
                    client_timeout = timeout (gh_options c),
                    client_proxy = (if truthy (proxy (gh_options c)) then proxy (gh_options c) else None),
                    auth_token = token w c\<rparr>
          in (cl, c\<lparr>client := Some cl\<rparr>))"

subsection \<open>The retry dependency\<close>

text \<open>
  \<^verbatim>\<open>retry(fn, { retries })\<close> is the \<^verbatim>\<open>async-retry\<close> package, not code of this
  repository. It calls \<open>fn\<close> with a \<open>bail\<close> function and the number of the attempt,
  counted from 1. When \<open>fn\<close> resolves, so does \<open>retry\<close>; when \<open>fn\<close> calls \<open>bail\<close>
  with an error, \<open>retry\<close> rejects with that error and makes no further attempt; when
  \<open>fn\<close> throws, the attempt is repeated while retries are left, and after the last one
  \<open>retry\<close> rejects with one of the errors thrown, given here as their list. The waiting
  time between two attempts is not modelled.
\<close>

datatype 'a attempt = Resolved 'a | Bailed error | Thrown thrown

fun retry_from :: "('s \<Rightarrow> nat \<Rightarrow> 'a attempt \<times> 's) \<Rightarrow> nat \<Rightarrow> nat \<Rightarrow> thrown list \<Rightarrow> 's
    \<Rightarrow> (error + 'a) \<times> 's" where
  "retry_from fn n 0 errs s =
     (case fn s n of
        (Resolved a, s') \<Rightarrow> (Inr a, s')
      | (Bailed e, s') \<Rightarrow> (Inl e, s')
      | (Thrown t, s') \<Rightarrow> (Inl (RetriesExhausted (errs @ [t])), s'))"
| "retry_from fn n (Suc k) errs s =
     (case fn s n of
        (Resolved a, s') \<Rightarrow> (Inr a, s')
      | (Bailed e, s') \<Rightarrow> (Inl e, s')
      | (Thrown t, s') \<Rightarrow> retry_from fn (Suc n) k (errs @ [t]) s')"

definition retry :: "('s \<Rightarrow> nat \<Rightarrow> 'a attempt \<times> 's) \<Rightarrow> nat \<Rightarrow> 's \<Rightarrow> (error + 'a) \<times> 's" where
  "retry fn retries s = retry_from fn 1 retries [] s"

subsection \<open>Creating a release\<close>

record release_args =
  r_version :: "string option"
  r_isPreRelease :: bool
  r_changelog :: "string option"

definition create_request_of :: "world \<Rightarrow> github \<Rightarrow> release_args \<Rightarrow> create_request" where
  "create_request_of w c a =
     \<lparr>rq_owner = owner (gh_repo c),
      rq_repo = project (gh_repo c),
      rq_tag_name = format w (tagName (gh_options c)) (r_version a),
      rq_name = format w (releaseName (gh_options c)) (r_version a),
      rq_body = (case r_changelog a of None \<Rightarrow> [] | Some t \<Rightarrow> t),
      rq_prerelease = r_isPreRelease a,
      rq_draft = draft (gh_options c)\<rparr>"

definition release_done_message :: "release_data \<Rightarrow> string" where
  "release_done_message d =
     ''octokit releases#createRelease: done ('' @ rd_location d @ '' '' @ rd_tag_name d
       @ '' '' @ [CHR 0x22] @ rd_name d @ [CHR 0x22] @ '')''"

text \<open>One run of the function given to \<^verbatim>\<open>retry\<close> in \<^verbatim>\<open>release\<close>.\<close>

definition release_attempt :: "world \<Rightarrow> release_args \<Rightarrow> github \<Rightarrow> nat \<Rightarrow> release_data attempt \<times> github" where
  "release_attempt w a c n =
     (let rq = create_request_of w c a;
          c1 = c\<lparr>requests := requests c @ [CreateRelease rq]\<rparr>
      in case createRelease w n rq of
           Ok d \<Rightarrow>
             (Resolved d,
              c1\<lparr>gh_log := gh_log c1 @ [LogVerbose (release_done_message d)],
                 version := r_version a,
                 releaseUrl := rd_html_url d,
                 uploadUrl := rd_upload_url d,
                 isReleased := True\<rparr>)
         | Fail err \<Rightarrow>
             let msg = parseErrorMessage err in
             if includes_status NO_RETRIES_NEEDED (status err)
             then (Bailed (GithubClientError msg), c1)
             else (Thrown err, c1\<lparr>gh_log := gh_log c1 @ [LogWarn msg]\<rparr>))"

text \<open>\<^verbatim>\<open>release\<close> resolves to the data of the response, and to \<open>undefined\<close> (\<open>None\<close>) in
  dry-run mode, where it returns the resolved promise \<^verbatim>\<open>noop\<close>.\<close>

definition release_gh :: "world \<Rightarrow> github \<Rightarrow> release_args \<Rightarrow> (error + release_data option) \<times> github" where
  "release_gh w c a =
     (let c1 = c\<lparr>gh_log := gh_log c @ [LogExec ''octokit releases#createRelease'']\<rparr> in
      if isDryRun (gh_options c1) then (Inr None, c1\<lparr>gh_log := gh_log c1 @ [LogDry]\<rparr>)
      else
        let c2 = snd (getGithubClient w c1) in
        case retry (release_attempt w a) 2 c2 of
          (Inl e, c3) \<Rightarrow> (Inl e, c3)
        | (Inr d, c3) \<Rightarrow> (Inr (Some d), c3))"

subsection \<open>Uploading assets\<close>

text \<open>\<^verbatim>\<open>path.basename\<close> on a path with \<open>/\<close> separators.\<close>

definition basename :: "string \<Rightarrow> string" where
  "basename p = last (split_on (CHR 0x2F) p)"

definition upload_done_message :: "asset_data \<Rightarrow> string" where
  "upload_done_message d =
     ''octokit releases#uploadAsset: done ('' @ browser_download_url d @ '')''"

definition upload_attempt :: "world \<Rightarrow> upload_request \<Rightarrow> github \<Rightarrow> nat \<Rightarrow> asset_data attempt \<times> github" where
  "upload_attempt w rq c n =
     (let c1 = c\<lparr>requests := requests c @ [UploadReleaseAsset rq]\<rparr>
      in case uploadReleaseAsset w n rq of
           Ok d \<Rightarrow> (Resolved d, c1\<lparr>gh_log := gh_log c1 @ [LogVerbose (upload_done_message d)]\<rparr>)
         | Fail err \<Rightarrow>
             let msg = parseErrorMessage err in
             if includes_status NO_RETRIES_NEEDED (status err)
             then (Bailed (GithubClientError msg), c1)
             else (Thrown err, c1\<lparr>gh_log := gh_log c1 @ [LogWarn msg]\<rparr>))"

text \<open>
  \<^verbatim>\<open>uploadAsset\<close> is not an \<^verbatim>\<open>async\<close> function: when \<^verbatim>\<open>fs.statSync\<close> throws, the call
  itself throws (\<open>Raised\<close>), after the client was made and before any request. Otherwise
  it returns the promise of \<^verbatim>\<open>retry\<close>, given here by what it settles to (\<open>Promise\<close>).
\<close>

datatype 'a call = Raised thrown | Promise "error + 'a"

definition uploadAsset :: "world \<Rightarrow> github \<Rightarrow> string \<Rightarrow> asset_data call \<times> github" where
  "uploadAsset w c filePath =
     (let c1 = snd (getGithubClient w c);
          name' = basename filePath;
          contentType' = (if truthy (contentType w name') then the (contentType w name')
                          else ''application/octet-stream'')
      in case statSync w filePath of
           Inl err \<Rightarrow> (Raised err, c1)
         | Inr contentLength \<Rightarrow>
             (case retry (upload_attempt w
                      \<lparr>up_url = uploadUrl c1, up_file = filePath, up_name = name',
                       up_content_type = contentType', up_content_length = contentLength\<rparr>)
                     2 c1 of
                (r, c2) \<Rightarrow> (Promise r, c2)))"

text \<open>
  \<^verbatim>\<open>files.map(filePath => this.uploadAsset(filePath))\<close> starts the uploads in the order of
  the files. When a call throws, \<open>map\<close> throws: the files after it are not started, and
  the uploads started before it go on. The uploads run concurrently; how the attempts of
  different uploads interleave depends on the timing of the answers and is not modelled:
  the requests and the log entries of one upload are recorded together, upload after
  upload in the order of the files.
\<close>

fun start_uploads :: "world \<Rightarrow> github \<Rightarrow> string list \<Rightarrow> (thrown + (error + asset_data) list) \<times> github" where
  "start_uploads w c [] = (Inr [], c)"
| "start_uploads w c (f # fs) =
     (case uploadAsset w c f of
        (Raised err, c1) \<Rightarrow> (Inl err, c1)
      | (Promise r, c1) \<Rightarrow>
          (case start_uploads w c1 fs of
             (Inl err, c2) \<Rightarrow> (Inl err, c2)
           | (Inr rs, c2) \<Rightarrow> (Inr (r # rs), c2)))"

text \<open>
  \<^verbatim>\<open>Promise.all\<close> resolves to the list of the results when every promise resolves, and
  rejects with the error of the promise that rejects first in time, which is the
  \<open>first\<close>-th of those that reject.
\<close>

definition rejections :: "(error + 'a) list \<Rightarrow> error list" where
  "rejections rs = List.map_filter (\<lambda>r. case r of Inl e \<Rightarrow> Some e | Inr d \<Rightarrow> None) rs"

definition resolutions :: "(error + 'a) list \<Rightarrow> 'a list" where
  "resolutions rs = List.map_filter (\<lambda>r. case r of Inl e \<Rightarrow> None | Inr d \<Rightarrow> Some d) rs"

definition promise_all :: "nat \<Rightarrow> (error + 'a) list \<Rightarrow> error + 'a list" where
  "promise_all first rs =
     (if rejections rs = [] then Inr (resolutions rs)
      else Inl (rejections rs ! (first mod length (rejections rs))))"

text \<open>The callback of \<^verbatim>\<open>globby(assets).then\<close> after the warning: when \<open>map\<close> throws, the
  promise of \<^verbatim>\<open>uploadAssets\<close> rejects with what was thrown.\<close>

definition upload_all :: "world \<Rightarrow> github \<Rightarrow> string list \<Rightarrow> (error + asset_data list) \<times> github" where
  "upload_all w c files =
     (case start_uploads w c files of
        (Inl err, c1) \<Rightarrow> (Inl (Uncaught err), c1)
      | (Inr rs, c1) \<Rightarrow> (promise_all (earliest w) rs, c1))"

definition assets_not_found_message :: "world \<Rightarrow> string \<Rightarrow> string" where
  "assets_not_found_message w glob =
     ''octokit releases#uploadAssets: assets not found (glob '' @ [CHR 0x22] @ glob @ [CHR 0x22]
       @ '' relative to '' @ cwd w @ '')''"

text \<open>\<^verbatim>\<open>uploadAssets\<close> resolves to \<open>undefined\<close> (\<open>None\<close>) when there is nothing to do and in
  dry-run mode, else to the data of the uploads.\<close>

definition uploadAssets :: "world \<Rightarrow> github \<Rightarrow> (error + asset_data list option) \<times> github" where
  "uploadAssets w c =
     (if \<not> truthy (assets (gh_options c)) then (Inr None, c)
      else
        let c1 = c\<lparr>gh_log := gh_log c @ [LogExec ''octokit releases#uploadAssets'']\<rparr> in
        if isDryRun (gh_options c1) then (Inr None, c1\<lparr>gh_log := gh_log c1 @ [LogDry]\<rparr>)
        else
          let files = globby w (the (assets (gh_options c1)));
              c2 = (if files = []
                    then c1\<lparr>gh_log := gh_log c1 @
                           [LogWarn (assets_not_found_message w (the (assets (gh_options c1))))]\<rparr>
                    else c1)
          in case upload_all w c2 files of
               (Inl e, c3) \<Rightarrow> (Inl e, c3)
             | (Inr ds, c3) \<Rightarrow> (Inr (Some ds), c3))"

subsection \<open>The url of the release\<close>

definition getReleaseUrlFallback :: "world \<Rightarrow> github \<Rightarrow> string" where
  "getReleaseUrlFallback w c =
     (let tag' = format w (tagName (gh_options c)) (version c)
      in ''https://'' @ repo_host (gh_repo c) @ ''/'' @ repository (gh_repo c)
           @ ''/releases/tag/'' @ tag')"

definition getReleaseUrl :: "world \<Rightarrow> github \<Rightarrow> string" where
  "getReleaseUrl w c =
     (if truthy (releaseUrl c) then the (releaseUrl c) else getReleaseUrlFallback w c)"

subsection \<open>The retry discipline\<close>

text \<open>
  The retry discipline as the specification states it, for a function \<open>fn\<close> given to
  \<^verbatim>\<open>retry\<close> that sends the request \<open>rq\<close> and gets the answer \<open>out n\<close> at attempt
  \<open>n\<close>. \<open>follows_policy\<close>: every attempt sends the request once; a success resolves;
  a failure with one of the statuses 400, 401, 404, 422 bails out with a client error of
  the parsed message and logs nothing; any other failure logs the parsed message as a
  warning and throws. \<open>policy_result\<close>: what a call that made \<open>j\<close> retries after its
  first attempt \<open>n\<close>, with \<open>k\<close> retries allowed, returns, and how many warnings it
  logged.
\<close>

definition follows_policy :: "(github \<Rightarrow> bool) \<Rightarrow> (nat \<Rightarrow> 'a outcome) \<Rightarrow> request
    \<Rightarrow> (github \<Rightarrow> nat \<Rightarrow> 'a attempt \<times> github) \<Rightarrow> bool" where
  "follows_policy Inv out rq fn =
     (\<forall>c n. Inv c \<longrightarrow>
        (case fn c n of
           (res, c1) \<Rightarrow>
             Inv c1 \<and> requests c1 = requests c @ [rq]
             \<and> (case out n of
                   Ok d \<Rightarrow> res = Resolved d \<and> warnings (gh_log c1) = warnings (gh_log c)
                 | Fail e \<Rightarrow>
                     if includes_status NO_RETRIES_NEEDED (status e)
                     then res = Bailed (GithubClientError (parseErrorMessage e))
                          \<and> warnings (gh_log c1) = warnings (gh_log c)
                     else res = Thrown e
                          \<and> warnings (gh_log c1) = warnings (gh_log c) @ [parseErrorMessage e])))"

definition policy_result :: "(nat \<Rightarrow> 'a outcome) \<Rightarrow> nat \<Rightarrow> nat \<Rightarrow> nat \<Rightarrow> nat \<Rightarrow> (error + 'a) \<Rightarrow> bool" where
  "policy_result out n k j nwarn r =
     (case r of
        Inr d \<Rightarrow> out (n + j) = Ok d \<and> nwarn = j
      | Inl (GithubClientError msg) \<Rightarrow>
          (\<exists>e. out (n + j) = Fail e \<and> includes_status NO_RETRIES_NEEDED (status e)
             \<and> msg = parseErrorMessage e) \<and> nwarn = j
      | Inl (RetriesExhausted es) \<Rightarrow>
          j = k \<and> (\<exists>e. out (n + j) = Fail e \<and> \<not> includes_status NO_RETRIES_NEEDED (status e))
          \<and> nwarn = Suc j
      | Inl other \<Rightarrow> False)"

section \<open>The release pipeline (\<^verbatim>\<open>lib/tasks.js\<close>)\<close>

text \<open>
  The pipeline is a sequence of awaited steps inside one \<^verbatim>\<open>try\<close> block. A run is
  modelled by its state: the trace of the steps taken so far, the error that aborted it
  (if any), the version held by the version object, the changelog, and the four clients.
  The collaborators whose files are not among the sources (the version-control client,
  the shell, the version object, the configuration) are steps that leave an event in the
  trace and fail when the collaborator does. \<open>GroupBegin\<close> and \<open>GroupEnd\<close> mark the call
  and the return of the local function \<^verbatim>\<open>release\<close>. Messages that are only logged are
  left out, except the links of the summary.
\<close>

datatype target = Primary | Dist

datatype hook = BeforeStart | BeforeBump | AfterBump | BeforeStage | DistBeforeStage | AfterRelease

datatype substep = SCommit | STag | SPush | SRelease | SPublish

datatype event =
    TrackEvent string
  | TrackException
  | GitInit target
  | GitValidate
  | ValidateStageDir
  | GithubValidate target
  | RunHook hook string
  | ShowWarnings
  | VersionBump "string option"
  | PromptIncrement
  | PromptVersion
  | VersionValidate
  | GetChangelog
  | ArmInterruptGuard
  | BumpFiles target "string option"
  | Stage target
  | StageDir target
  | Status target
  | Clone
  | Copy
  | Pushd
  | Popd
  | RemoveStageDir
  | GroupBegin target "string option"
  | GroupEnd target
  | Confirm target substep bool
  | GitCommit target
  | GitTag target
  | GitPush target
  | GithubRelease target
  | GithubUploadAssets target
  | NpmPublish target
  | PrintLink string
  | Done

record scripts =
  beforeStart :: "string option"
  beforeBump :: "string option"
  afterBump :: "string option"
  beforeStage :: "string option"
  afterRelease :: "string option"

text \<open>The gates of the step group, read from \<^verbatim>\<open>options\<close> for the primary repository and
  from \<^verbatim>\<open>options.dist\<close> for the distribution repository.\<close>

record group_options =
  git_commit :: bool
  git_tag :: bool
  git_push :: bool
  github_release :: bool
  github_assets :: bool
  npm_publish :: bool
  npm_private :: bool

record config = shared_options +
  isCollectMetrics :: bool
  cfg_scripts :: scripts
  pkgFiles :: bool
  requireCleanWorkingDir :: bool
  increment :: "string option"
  primary_options :: group_options
  dist_options :: group_options
  dist_repo :: "string option"
  dist_beforeStage :: "string option"

text \<open>
  What the collaborators and the operator do in a run: whether the external step taken
  at a position of the trace fails, and with which message; what the version object
  resolves for an increment and whether the resolved version is a pre-release; whether
  the increment is a recommendation; the operator's choices at the prompts; what the
  prompt does with a question whose gate is false; the tag decision for the distribution
  repository; the world of the release clients and the shells of the publish clients.
\<close>

record collab =
  fails :: "nat \<Rightarrow> event \<Rightarrow> string option"
  bump_version :: "string option \<Rightarrow> error + string option"
  details_isPreRelease :: "string option \<Rightarrow> bool"
  isRecommendation :: bool
  choose_increment :: "string option"
  type_version :: "string option"
  confirm :: "target \<Rightarrow> substep \<Rightarrow> bool"
  ungated_runs :: bool
  otp_answers :: "target \<Rightarrow> string list"
  changelog_text :: "string option"
  shouldTag :: bool
  gh_world :: world
  npm_shell :: "target \<Rightarrow> shell"
  prerelease_of :: "string \<Rightarrow> js list option"

record run =
  trace :: "event list"
  failed :: "error option"
  waiting :: bool
  v_version :: "string option"
  changelog :: "string option"
  ghClient :: github
  ghDistClient :: github
  npmClient :: npm
  npmDistClient :: npm

type_synonym step = "run \<Rightarrow> run"

text \<open>A run is halted when a step has thrown, or when it waits for an answer that the
  operator never gives. The steps of a sequence are taken in order until the run halts.\<close>

definition halted :: "run \<Rightarrow> bool" where
  "halted s = (failed s \<noteq> None \<or> waiting s)"

fun run_steps :: "step list \<Rightarrow> step" where
  "run_steps [] s = s"
| "run_steps (f # fs) s = (if halted s then s else run_steps fs (f s))"

definition emit :: "event \<Rightarrow> step" where
  "emit e s = s\<lparr>trace := trace s @ [e]\<rparr>"

definition external :: "collab \<Rightarrow> event \<Rightarrow> step" where
  "external co e s =
     (case fails co (length (trace s)) e of
        None \<Rightarrow> emit e s
      | Some msg \<Rightarrow> (emit e s)\<lparr>failed := Some (Rejected msg)\<rparr>)"

text \<open>A step under a condition of the code (\<^verbatim>\<open>if (b) { ... }\<close> and \<^verbatim>\<open>b && task()\<close>).\<close>

definition guarded :: "bool \<Rightarrow> step \<Rightarrow> step" where
  "guarded b task s = (if b then task s else s)"

text \<open>
  Modelled from the spec: \<^verbatim>\<open>show\<close> of \<^verbatim>\<open>lib/spinner\<close>, whose file is not among the
  sources. A step whose gate is false or empty is skipped silently; a step whose gate is
  true executes, and its failure is the failure of the step.
\<close>

definition show_step :: "bool \<Rightarrow> step \<Rightarrow> step" where
  "show_step gate task s = (if gate then task s else s)"

text \<open>
  Modelled from the spec: \<^verbatim>\<open>prompt\<close> of \<^verbatim>\<open>lib/prompt\<close>, whose file is not among the
  sources, for a yes/no confirmation. A sub-step whose gate is true is offered to the
  operator before executing, and declining skips it without failing the pipeline. For a
  gate that is false the specification has two readings: in its section 4.2 the sub-step
  is gated, so it is not offered and does not execute; in its section 6 the prompt
  invokes the continuation immediately. \<open>ungated_runs\<close> tells which of the two the
  prompt does.
\<close>

definition prompt_confirm :: "collab \<Rightarrow> bool \<Rightarrow> target \<Rightarrow> substep \<Rightarrow> step \<Rightarrow> step" where
  "prompt_confirm co gate t q task s =
     (if \<not> gate then (if ungated_runs co then task s else s)
      else if confirm co t q then task (emit (Confirm t q True) s)
      else emit (Confirm t q False) s)"

definition run_hook :: "collab \<Rightarrow> hook \<Rightarrow> string option \<Rightarrow> step" where
  "run_hook co h script = show_step (truthy script) (external co (RunHook h (the script)))"

subsection \<open>The clients in a run\<close>

definition gh_client :: "target \<Rightarrow> run \<Rightarrow> github" where
  "gh_client t s = (case t of Primary \<Rightarrow> ghClient s | Dist \<Rightarrow> ghDistClient s)"

definition set_gh_client :: "target \<Rightarrow> github \<Rightarrow> step" where
  "set_gh_client t c s = (case t of Primary \<Rightarrow> s\<lparr>ghClient := c\<rparr> | Dist \<Rightarrow> s\<lparr>ghDistClient := c\<rparr>)"

definition npm_client :: "target \<Rightarrow> run \<Rightarrow> npm" where
  "npm_client t s = (case t of Primary \<Rightarrow> npmClient s | Dist \<Rightarrow> npmDistClient s)"

definition set_npm_client :: "target \<Rightarrow> npm \<Rightarrow> step" where
  "set_npm_client t c s = (case t of Primary \<Rightarrow> s\<lparr>npmClient := c\<rparr> | Dist \<Rightarrow> s\<lparr>npmDistClient := c\<rparr>)"

definition github_validate :: "collab \<Rightarrow> target \<Rightarrow> step" where
  "github_validate co t s =
     (case validate (gh_world co) (gh_client t s) of
        Inl e \<Rightarrow> (emit (GithubValidate t) s)\<lparr>failed := Some e\<rparr>
      | Inr u \<Rightarrow> emit (GithubValidate t) s)"

text \<open>\<^verbatim>\<open>ghClient.release({ version, isPreRelease, changelog })\<close>, with what it resolves to.\<close>

definition release_call :: "collab \<Rightarrow> target \<Rightarrow> string option \<Rightarrow> bool \<Rightarrow> run
    \<Rightarrow> (error + release_data option) \<times> run" where
  "release_call co t ver isPre s =
     (case release_gh (gh_world co) (gh_client t s)
             \<lparr>r_version = ver, r_isPreRelease = isPre, r_changelog = changelog s\<rparr> of
        (r, c) \<Rightarrow> (r, set_gh_client t c (emit (GithubRelease t) s)))"

definition github_release_step :: "collab \<Rightarrow> target \<Rightarrow> string option \<Rightarrow> bool \<Rightarrow> step" where
  "github_release_step co t ver isPre s =
     (case release_call co t ver isPre s of
        (Inl e, s1) \<Rightarrow> s1\<lparr>failed := Some e\<rparr>
      | (Inr d, s1) \<Rightarrow> s1)"

definition github_uploadAssets :: "collab \<Rightarrow> target \<Rightarrow> step" where
  "github_uploadAssets co t s =
     (case uploadAssets (gh_world co) (gh_client t s) of
        (Inl e, c) \<Rightarrow> (set_gh_client t c (emit (GithubUploadAssets t) s))\<lparr>failed := Some e\<rparr>
      | (Inr d, c) \<Rightarrow> set_gh_client t c (emit (GithubUploadAssets t) s))"

text \<open>\<^verbatim>\<open>(await release()) && (await uploadAssets())\<close>: the assets are uploaded when
  \<open>release\<close> resolved to the data of a response, not when it resolved to \<open>undefined\<close>.\<close>

definition releaseAndUploadAssets :: "collab \<Rightarrow> target \<Rightarrow> string option \<Rightarrow> bool \<Rightarrow> step" where
  "releaseAndUploadAssets co t ver isPre s =
     (case release_call co t ver isPre s of
        (Inl e, s1) \<Rightarrow> s1\<lparr>failed := Some e\<rparr>
      | (Inr None, s1) \<Rightarrow> s1
      | (Inr (Some d), s1) \<Rightarrow> github_uploadAssets co t s1)"

text \<open>\<^verbatim>\<open>npmClient.publish({ version, isPreRelease, otpPrompt })\<close>.\<close>

definition npm_publish_step :: "collab \<Rightarrow> target \<Rightarrow> string option \<Rightarrow> bool \<Rightarrow> step" where
  "npm_publish_step co t ver isPre s =
     (case publish (prerelease_of co) (npm_shell co t) (npm_client t s)
             \<lparr>p_tag = Undefined, p_version = ver, p_isPreRelease = isPre, p_otp = None,
              p_otpPrompt = True\<rparr> (otp_answers co t) of
        None \<Rightarrow> (emit (NpmPublish t) s)\<lparr>waiting := True\<rparr>
      | Some (Inl err, c) \<Rightarrow>
          (set_npm_client t c (emit (NpmPublish t) s))\<lparr>failed := Some (Rejected err)\<rparr>
      | Some (Inr u, c) \<Rightarrow> set_npm_client t c (emit (NpmPublish t) s))"

subsection \<open>The version object\<close>

text \<open>\<^verbatim>\<open>v.bump\<close> is a collaborator: it throws, or leaves a version or none in \<open>v.version\<close>.\<close>

definition version_bump :: "collab \<Rightarrow> string option \<Rightarrow> step" where
  "version_bump co inc s =
     (case bump_version co inc of
        Inl e \<Rightarrow> (emit (VersionBump inc) s)\<lparr>failed := Some e\<rparr>
      | Inr v \<Rightarrow> (emit (VersionBump inc) s)\<lparr>v_version := v\<rparr>)"

text \<open>The prompts for an increment and, when none is chosen, for a version.\<close>

definition version_prompt :: "collab \<Rightarrow> step" where
  "version_prompt co s =
     (if truthy (choose_increment co)
      then version_bump co (choose_increment co) (emit PromptIncrement s)
      else (emit PromptVersion (emit PromptIncrement s))\<lparr>v_version := type_version co\<rparr>)"

text \<open>
  Modelled from the spec: \<^verbatim>\<open>validate\<close> of the version object in \<^verbatim>\<open>lib/version\<close>, whose
  file is not among the sources. It fails with InvalidVersionError if no version was
  ultimately resolved.
\<close>

definition version_validate :: step where
  "version_validate s =
     (if truthy (v_version s) then emit VersionValidate s
      else (emit VersionValidate s)\<lparr>failed := Some InvalidVersionError\<rparr>)"

definition get_changelog :: "collab \<Rightarrow> step" where
  "get_changelog co s =
     (case fails co (length (trace s)) GetChangelog of
        None \<Rightarrow> (emit GetChangelog s)\<lparr>changelog := changelog_text co\<rparr>
      | Some msg \<Rightarrow> (emit GetChangelog s)\<lparr>failed := Some (Rejected msg)\<rparr>)"

subsection \<open>The step group\<close>

text \<open>
  The local function \<^verbatim>\<open>release({ options, gitClient, ghClient, npmClient })\<close>. The hook
  run after the sub-steps is \<^verbatim>\<open>scripts.afterRelease\<close> of the enclosing scope, the hook of
  the primary repository, for both targets.
\<close>

definition group_substeps :: "config \<Rightarrow> collab \<Rightarrow> target \<Rightarrow> group_options \<Rightarrow> string option \<Rightarrow> bool \<Rightarrow> step list" where
  "group_substeps cfg co t g ver isPre =
     (if \<not> isInteractive cfg then
        [show_step (git_commit g) (external co (GitCommit t)),
         show_step (git_tag g) (external co (GitTag t)),
         show_step (git_push g) (external co (GitPush t)),
         show_step (github_release g) (github_release_step co t ver isPre),
         show_step (github_assets g) (github_uploadAssets co t),
         show_step (npm_publish g \<and> \<not> npm_private g) (npm_publish_step co t ver isPre)]
      else
        [prompt_confirm co (git_commit g) t SCommit (external co (GitCommit t)),
         prompt_confirm co (git_tag g) t STag (external co (GitTag t)),
         prompt_confirm co (git_push g) t SPush (external co (GitPush t)),
         prompt_confirm co (github_release g) t SRelease (releaseAndUploadAssets co t ver isPre),
         prompt_confirm co (npm_publish g \<and> \<not> npm_private g) t SPublish
           (npm_publish_step co t ver isPre)])"

definition release_group :: "config \<Rightarrow> collab \<Rightarrow> target \<Rightarrow> group_options \<Rightarrow> string option \<Rightarrow> bool \<Rightarrow> step" where
  "release_group cfg co t g ver isPre =
     run_steps
       ([emit (GroupBegin t ver)] @
        group_substeps cfg co t g ver isPre @
        [run_hook co AfterRelease (afterRelease (cfg_scripts cfg)),
         emit (GroupEnd t)])"

text \<open>The five gates of the step group are false: commit, tag, push, release, and publish
  with its condition that the package is not private.\<close>

definition five_gates_false :: "group_options \<Rightarrow> bool" where
  "five_gates_false g =
     (\<not> git_commit g \<and> \<not> git_tag g \<and> \<not> git_push g \<and> \<not> github_release g
      \<and> \<not> (npm_publish g \<and> \<not> npm_private g))"

subsection \<open>The whole run\<close>

text \<open>The steps up to and including the validation of the version (lines 28 to 104).\<close>

definition resolve_steps :: "config \<Rightarrow> collab \<Rightarrow> step list" where
  "resolve_steps cfg co =
     [guarded (isCollectMetrics cfg) (emit (TrackEvent ''start'')),
      external co (GitInit Primary),
      external co GitValidate,
      external co ValidateStageDir,
      github_validate co Primary,
      github_validate co Dist,
      run_hook co BeforeStart (beforeStart (cfg_scripts cfg)),
      emit ShowWarnings,
      version_bump co (increment cfg),
      guarded (\<not> isRecommendation co) (get_changelog co),
      (\<lambda>s. if isInteractive cfg \<and> \<not> truthy (v_version s) then version_prompt co s else s),
      version_validate]"

text \<open>The steps from the bump of the files to the staging of the distribution
  repository (lines 108 to 142), for the version and the pre-release flag read from
  \<^verbatim>\<open>v.details\<close>.\<close>

definition stage_steps :: "config \<Rightarrow> collab \<Rightarrow> string option \<Rightarrow> step list" where
  "stage_steps cfg co ver =
     [guarded (isInteractive cfg \<and> pkgFiles cfg \<and> requireCleanWorkingDir cfg) (emit ArmInterruptGuard),
      run_hook co BeforeBump (beforeBump (cfg_scripts cfg)),
      external co (BumpFiles Primary ver),
      run_hook co AfterBump (afterBump (cfg_scripts cfg)),
      guarded (isRecommendation co) (get_changelog co),
      run_hook co BeforeStage (beforeStage (cfg_scripts cfg)),
      external co (Stage Primary),
      external co (StageDir Primary),
      external co (Status Primary),
      guarded (truthy (dist_repo cfg))
        (run_steps
           [external co Clone,
            external co Copy,
            external co Pushd,
            external co (BumpFiles Dist ver),
            run_hook co DistBeforeStage (dist_beforeStage cfg),
            external co (StageDir Dist),
            external co Popd])]"

text \<open>The release of the distribution repository (lines 177 to 201); its tag gate is
  what \<^verbatim>\<open>shouldTag\<close> answers.\<close>

definition dist_release_steps :: "config \<Rightarrow> collab \<Rightarrow> string option \<Rightarrow> bool \<Rightarrow> step list" where
  "dist_release_steps cfg co ver isPre =
     [external co Pushd,
      external co (GitInit Dist),
      external co (Status Dist),
      release_group cfg co Dist ((dist_options cfg)\<lparr>git_tag := shouldTag co\<rparr>) ver isPre,
      external co Popd,
      external co RemoveStageDir]"

text \<open>The summary (lines 203 to 210).\<close>

definition summary_steps :: "config \<Rightarrow> collab \<Rightarrow> step list" where
  "summary_steps cfg co =
     [(\<lambda>s. guarded (isReleased (ghClient s))
              (emit (PrintLink (getReleaseUrl (gh_world co) (ghClient s)))) s),
      (\<lambda>s. guarded (isReleased (ghDistClient s))
              (emit (PrintLink (getReleaseUrl (gh_world co) (ghDistClient s)))) s),
      (\<lambda>s. guarded (isPublished (npmClient s)) (emit (PrintLink (getPackageUrl (npmClient s)))) s),
      (\<lambda>s. guarded (isPublished (npmDistClient s))
              (emit (PrintLink (getPackageUrl (npmDistClient s)))) s),
      guarded (isCollectMetrics cfg) (emit (TrackEvent ''end'')),
      emit Done]"

definition release_steps :: "config \<Rightarrow> collab \<Rightarrow> string option \<Rightarrow> bool \<Rightarrow> step list" where
  "release_steps cfg co ver isPre =
     stage_steps cfg co ver @
     [release_group cfg co Primary (primary_options cfg) ver isPre,
      guarded (truthy (dist_repo cfg)) (run_steps (dist_release_steps cfg co ver isPre))] @
     summary_steps cfg co"

text \<open>The \<^verbatim>\<open>catch\<close> block reports the error to the metrics beacon when metrics are
  collected, and throws it again.\<close>

definition catch_block :: "config \<Rightarrow> step" where
  "catch_block cfg s =
     (if failed s \<noteq> None \<and> isCollectMetrics cfg then emit TrackException s else s)"

definition pipeline :: "config \<Rightarrow> collab \<Rightarrow> step" where
  "pipeline cfg co s =
     (let s1 = run_steps (resolve_steps cfg co) s;
          ver = v_version s1;
          isPre = details_isPreRelease co ver
      in catch_block cfg (run_steps (release_steps cfg co ver isPre) s1))"

text \<open>The state in which a run starts, with the four clients as their constructors
  leave them.\<close>

definition start :: "github \<Rightarrow> github \<Rightarrow> npm \<Rightarrow> npm \<Rightarrow> run" where
  "start gh ghDist np npDist =
     \<lparr>trace = [], failed = None, waiting = False, v_version = None, changelog = None,
      ghClient = gh, ghDistClient = ghDist, npmClient = np, npmDistClient = npDist\<rparr>"

subsection \<open>Reading a trace\<close>

text \<open>\<open>first_then e P tr\<close>: no event with \<open>P\<close> occurs in \<open>tr\<close> before the first \<open>e\<close>
  (and none at all when \<open>e\<close> does not occur).\<close>

fun first_then :: "event \<Rightarrow> (event \<Rightarrow> bool) \<Rightarrow> event list \<Rightarrow> bool" where
  "first_then e P [] = True"
| "first_then e P (x # xs) = (x = e \<or> (\<not> P x \<and> first_then e P xs))"


fun is_substep :: "event \<Rightarrow> bool" where
  "is_substep (GitCommit t) = True"
| "is_substep (GitTag t) = True"
| "is_substep (GitPush t) = True"
| "is_substep (GithubRelease t) = True"
| "is_substep (NpmPublish t) = True"
| "is_substep e = False"

fun is_group_begin :: "event \<Rightarrow> bool" where
  "is_group_begin (GroupBegin t v) = True"
| "is_group_begin e = False"

fun is_group_mark :: "event \<Rightarrow> bool" where
  "is_group_mark (GroupBegin t v) = True"
| "is_group_mark (GroupEnd t) = True"
| "is_group_mark e = False"

text \<open>The marks of the step group in a trace: the calls and the returns of the local
  function \<^verbatim>\<open>release\<close>, in their order.\<close>

definition group_marks :: "event list \<Rightarrow> event list" where
  "group_marks tr = filter is_group_mark tr"




definition emits :: "(event \<Rightarrow> bool) \<Rightarrow> step \<Rightarrow> bool" where
  "emits Q f = (\<forall>s. \<exists>ev. trace (f s) = trace s @ ev \<and> list_all Q ev)"

text \<open>The events of a run up to the validation of the release clients, and the report of
  an error to the metrics beacon. \<open>TrackEvent\<close> and \<open>TrackException\<close> are calls of the
  metrics beacon (\<^verbatim>\<open>lib/metrics.js\<close>), which posts to the analytics host.\<close>

definition before_release_host :: "event \<Rightarrow> bool" where
  "before_release_host e =
     (e \<in> {TrackEvent ''start'', GitInit Primary, GitValidate, ValidateStageDir,
            GithubValidate Primary, GithubValidate Dist, TrackException})"

section \<open>Example inputs\<close>

text \<open>Concrete clients, arguments and collaborators on which the theorems below are
  evaluated.\<close>

definition example_npm :: "bool \<Rightarrow> bool \<Rightarrow> npm" where
  "example_npm interactive dry =
     \<lparr>options = \<lparr>isInteractive = interactive, isVerbose = False, isDryRun = dry, name = ''pkg'',
        publishPath = None, access = None, tag = Undefined, otp = Some ''000000''\<rparr>,
      isPublished = False, npm_log = [], shell_calls = [], otp_prompts = 0\<rparr>"

definition example_publish_args :: publish_args where
  "example_publish_args =
     \<lparr>p_tag = Undefined, p_version = Some ''1.0.1'', p_isPreRelease = False, p_otp = None,
      p_otpPrompt = True\<rparr>"

definition EOTP :: string where
  "EOTP = ''npm ERR! code EOTP: This operation requires a one-time password.''"

definition E403 :: string where
  "E403 = ''npm ERR! code E403: You do not have permission to publish.''"

text \<open>A shell whose first command fails with the given error and whose later commands
  succeed.\<close>

definition fails_once :: "string \<Rightarrow> shell" where
  "fails_once err = (\<lambda>k cmd. if k = 0 then Some err else None)"

text \<open>A stand-in for \<^verbatim>\<open>format\<close> of \<^verbatim>\<open>lib/util\<close>: it puts the version in the place of
  \<^verbatim>\<open>${version}\<close>.\<close>

fun example_format :: "string \<Rightarrow> string option \<Rightarrow> string" where
  "example_format [] v = []"
| "example_format (c # cs) v =
     (if starts_with ''${version}'' (c # cs)
      then (case v of None \<Rightarrow> [] | Some x \<Rightarrow> x) @ example_format (drop 9 cs) v
      else c # example_format cs v)"

definition example_github :: "bool \<Rightarrow> github" where
  "example_github dry =
     \<lparr>gh_options = \<lparr>isInteractive = False, isVerbose = False, isDryRun = dry, release = True,
        tokenRef = ''GITHUB_TOKEN'', tagName = ''${version}'', releaseName = ''Release ${version}'',
        draft = False, assets = Some ''dist/*.zip'', host = None, proxy = None, timeout = 0\<rparr>,
      gh_repo = \<lparr>repo_host = ''github.com'', repository = ''webpro/release-it'',
        owner = ''webpro'', project = ''release-it''\<rparr>,
      client = None, version = None, releaseUrl = None, uploadUrl = None, isReleased = False,
      gh_log = [], requests = []\<rparr>"

definition example_release_args :: release_args where
  "example_release_args = \<lparr>r_version = Some ''1.0.1'', r_isPreRelease = False, r_changelog = None\<rparr>"

text \<open>A world in which the token is set and every request to the release host fails with
  the given error.\<close>

definition failing_world :: "thrown \<Rightarrow> world" where
  "failing_world err =
     \<lparr>process_env = (\<lambda>v. if v = ''GITHUB_TOKEN'' then Str ''secret'' else Undefined),
      deep_get = (\<lambda>p. Undefined),
      format = example_format,
      createRelease = (\<lambda>n rq. Fail err),
      uploadReleaseAsset = (\<lambda>n rq. Fail err),
      globby = (\<lambda>g. [''dist/app.zip'']),
      contentType = (\<lambda>n. Some ''application/zip''),
      statSync = (\<lambda>p. Inr 1024),
      earliest = 0,
      cwd = ''/repo''\<rparr>"

definition E422 :: thrown where
  "E422 = ErrorObj (Some 422) ''Validation Failed''"

definition E500 :: thrown where
  "E500 = ErrorObj (Some 500) ''Internal Server Error''"

text \<open>A world in which the token is set and the release host accepts every request.\<close>

definition ok_world :: world where
  "ok_world =
     \<lparr>process_env = (\<lambda>v. if v = ''GITHUB_TOKEN'' then Str ''secret'' else Undefined),
      deep_get = (\<lambda>p. Undefined),
      format = example_format,
      createRelease = (\<lambda>n rq. Ok
        \<lparr>rd_name = rq_name rq, rd_tag_name = rq_tag_name rq,
         rd_html_url = Some (''https://github.com/webpro/release-it/releases/tag/'' @ rq_tag_name rq),
         rd_upload_url = Some ''https://uploads.github.com/repos/webpro/release-it/releases/1/assets'',
         rd_location = ''https://api.github.com/repos/webpro/release-it/releases/1''\<rparr>),
      uploadReleaseAsset = (\<lambda>n rq. Ok \<lparr>browser_download_url = ''https://github.com/download/'' @ up_name rq\<rparr>),
      globby = (\<lambda>g. [''dist/app.zip'']),
      contentType = (\<lambda>n. Some ''application/zip''),
      statSync = (\<lambda>p. Inr 1024),
      earliest = 0,
      cwd = ''/repo''\<rparr>"

text \<open>A shell whose commands all succeed.\<close>

definition succeeds :: shell where
  "succeeds = (\<lambda>k cmd. None)"

text \<open>A configuration without hooks and with every gate of the step group false, and
  collaborators that never fail, with an operator who confirms every question.\<close>

definition no_scripts :: scripts where
  "no_scripts =
     \<lparr>beforeStart = None, beforeBump = None, afterBump = None, beforeStage = None,
      afterRelease = None\<rparr>"

definition gates_off :: group_options where
  "gates_off =
     \<lparr>git_commit = False, git_tag = False, git_push = False, github_release = False,
      github_assets = False, npm_publish = False, npm_private = False\<rparr>"

definition gates_on :: group_options where
  "gates_on =
     \<lparr>git_commit = True, git_tag = True, git_push = True, github_release = True,
      github_assets = True, npm_publish = True, npm_private = False\<rparr>"

definition example_config :: "bool \<Rightarrow> bool \<Rightarrow> group_options \<Rightarrow> string option \<Rightarrow> config" where
  "example_config interactive metrics g distRepo =
     \<lparr>isInteractive = interactive, isVerbose = False, isDryRun = False,
      isCollectMetrics = metrics, cfg_scripts = no_scripts, pkgFiles = True,
      requireCleanWorkingDir = True, increment = Some ''patch'',
      primary_options = g, dist_options = g, dist_repo = distRepo, dist_beforeStage = None\<rparr>"

definition example_collab :: "world \<Rightarrow> collab" where
  "example_collab w =
     \<lparr>fails = (\<lambda>n e. None),
      bump_version = (\<lambda>inc. Inr (Some ''1.0.1'')),
      details_isPreRelease = (\<lambda>v. False),
      isRecommendation = False,
      choose_increment = None,
      type_version = None,
      confirm = (\<lambda>t q. True),
      ungated_runs = False,
      otp_answers = (\<lambda>t. []),
      changelog_text = Some ''* Fix bug'',
      shouldTag = True,
      gh_world = w,
      npm_shell = (\<lambda>t. succeeds),
      prerelease_of = semver_prerelease\<rparr>"

definition example_start :: run where
  "example_start =
     start (example_github False) (example_github False) (example_npm False False)
       (example_npm False False)"

text \<open>A release client with asset globs for which no release is requested, a run that
  starts with such clients, and a world in which the release host accepts every request
  but an upload that has no upload url.\<close>

definition assets_only_github :: github where
  "assets_only_github =
     (example_github False)\<lparr>gh_options := (gh_options (example_github False))\<lparr>release := False\<rparr>\<rparr>"

definition assets_only_start :: run where
  "assets_only_start =
     start assets_only_github assets_only_github (example_npm False False) (example_npm False False)"

definition E400 :: thrown where
  "E400 = ErrorObj (Some 400) ''Empty value for parameter url''"

definition no_url_world :: world where
  "no_url_world =
     ok_world\<lparr>uploadReleaseAsset :=
       (\<lambda>n rq. if up_url rq = None then Fail E400
                else Ok \<lparr>browser_download_url = ''https://github.com/download/'' @ up_name rq\<rparr>)\<rparr>"

text \<open>A world in which the token is not set.\<close>

definition no_token_world :: world where
  "no_token_world = ok_world\<lparr>process_env := (\<lambda>v. Undefined)\<rparr>"

text \<open>A run whose primary release client requests no release and whose release client
  for the distribution repository requests one.\<close>

definition dist_release_start :: run where
  "dist_release_start =
     start assets_only_github (example_github False) (example_npm False False)
       (example_npm False False)"

text \<open>A world in which the only variable of the environment is \<^verbatim>\<open>VTOK\<close>, with the value
  \<^verbatim>\<open>abc\<close>; the path \<^verbatim>\<open>VTOK.length\<close> reads the length of that value.\<close>

definition vtok_world :: world where
  "vtok_world =
     ok_world\<lparr>process_env := (\<lambda>v. if v = ''VTOK'' then Str ''abc'' else Undefined),
              deep_get := (\<lambda>p. if p = ''VTOK.length'' then Num 3 else Undefined)\<rparr>"

text \<open>A release client whose token is read at the path \<^verbatim>\<open>VTOK.length\<close>.\<close>

definition vtok_github :: github where
  "vtok_github =
     (example_github False)\<lparr>gh_options := (gh_options (example_github False))\<lparr>tokenRef := ''VTOK.length''\<rparr>\<rparr>"


text \<open>An interactive session in which the version object resolves no version and the
  operator chooses no increment and types no version.\<close>

definition declining_collab :: collab where
  "declining_collab = (example_collab ok_world)\<lparr>bump_version := (\<lambda>inc. Inr None)\<rparr>"

text \<open>Collaborators whose commit in the primary repository fails.\<close>

definition commit_fails_collab :: collab where
  "commit_fails_collab =
     (example_collab ok_world)
       \<lparr>fails := (\<lambda>n e. if e = GitCommit Primary then Some ''nothing to commit'' else None)\<rparr>"

section \<open>Properties of the registry publish client\<close>

lemmas semver_defs =
  semver_prerelease_def numeric_identifier_def non_numeric_identifier_def
  prerelease_identifier_def build_identifier_def is_ident_char_def is_digit_def
  is_letter_def to_component_def int_of_digits_def MAX_SAFE_INTEGER_def

lemma prerelease_beta: "semver_prerelease ''2.0.0-beta.3'' = Some [Str ''beta'', Num 3]"
  by (simp add: semver_defs)

lemma prerelease_stable: "semver_prerelease ''2.0.0'' = None"
  by (simp add: semver_defs)

lemma prerelease_zero: "semver_prerelease ''1.0.1-0'' = Some [Num 0]"
  by (simp add: semver_defs)

text \<open>
  C2, as the code has it. A pre-release version that has pre-release components resolves
  to the first of them, whether or not a tag is supplied: the tag is only the fallback of
  \<^verbatim>\<open>_.get(preReleaseComponents, 0, tag)\<close>. A version that is not a pre-release resolves
  to the default tag \<open>latest\<close> when the tag is \<open>undefined\<close>, and to the tag as it is
  supplied otherwise, \<open>null\<close> included.
\<close>

theorem getTag_resolution:
  "(a_isPreRelease a \<and> truthy (a_version a) \<and> prerelease (the (a_version a)) = Some (c # cs)
      \<and> c \<noteq> Undefined
      \<longrightarrow> getTag prerelease a = c)
   \<and> (\<not> a_isPreRelease a \<and> a_tag a = Undefined \<longrightarrow> getTag prerelease a = Str DEFAULT_TAG)
   \<and> (\<not> a_isPreRelease a \<and> a_tag a \<noteq> Undefined \<longrightarrow> getTag prerelease a = a_tag a)"
  by (simp add: getTag_def)

theorem getTag_resolution_witness:
  "getTag semver_prerelease
     \<lparr>a_tag = Undefined, a_version = Some ''2.0.0-beta.3'', a_isPreRelease = True\<rparr> = Str ''beta''
   \<and> getTag semver_prerelease
     \<lparr>a_tag = Str ''next'', a_version = Some ''2.0.0-beta.3'', a_isPreRelease = True\<rparr> = Str ''beta''
   \<and> getTag semver_prerelease
     \<lparr>a_tag = Undefined, a_version = Some ''2.0.0'', a_isPreRelease = False\<rparr> = Str ''latest''
   \<and> getTag semver_prerelease
     \<lparr>a_tag = Str ''next'', a_version = Some ''2.0.0'', a_isPreRelease = False\<rparr> = Str ''next''
   \<and> getTag semver_prerelease
     \<lparr>a_tag = Null, a_version = Some ''2.0.0'', a_isPreRelease = False\<rparr> = Null"
  using
    getTag_resolution [of "\<lparr>a_tag = Undefined, a_version = Some ''2.0.0-beta.3'', a_isPreRelease = True\<rparr>"
      semver_prerelease "Str ''beta''" "[Num 3]"]
    getTag_resolution [of "\<lparr>a_tag = Str ''next'', a_version = Some ''2.0.0-beta.3'', a_isPreRelease = True\<rparr>"
      semver_prerelease "Str ''beta''" "[Num 3]"]
    getTag_resolution [of "\<lparr>a_tag = Undefined, a_version = Some ''2.0.0'', a_isPreRelease = False\<rparr>"
      semver_prerelease "Str ''beta''" "[]"]
    getTag_resolution [of "\<lparr>a_tag = Str ''next'', a_version = Some ''2.0.0'', a_isPreRelease = False\<rparr>"
      semver_prerelease "Str ''beta''" "[]"]
    getTag_resolution [of "\<lparr>a_tag = Null, a_version = Some ''2.0.0'', a_isPreRelease = False\<rparr>"
      semver_prerelease "Str ''beta''" "[]"]
  by (simp add: prerelease_beta truthy_def DEFAULT_TAG_def)

text \<open>
  C2 as stated fails: with the explicit tag \<open>next\<close>, the pre-release version
  \<open>2.0.0-beta.3\<close> resolves to \<open>beta\<close>, not to the tag supplied.
\<close>

theorem getTag_explicit_tag_counterexample:
  "getTag semver_prerelease
     \<lparr>a_tag = Str ''next'', a_version = Some ''2.0.0-beta.3'', a_isPreRelease = True\<rparr>
   \<noteq> Str ''next''"
  by (simp add: getTag_def truthy_def prerelease_beta)

text \<open>
  C9, as the code has it. A call of \<open>getTag\<close> with an object whose version is absent
  (\<open>undefined\<close>, \<open>null\<close> or empty) or has no pre-release components (the package returns
  \<open>null\<close> for it, or no component) returns the tag as it was supplied, and \<open>latest\<close>
  when the tag is \<open>undefined\<close>; a tag that is \<open>null\<close> is returned as \<open>null\<close>. A call
  with no argument returns \<open>latest\<close>. A call with \<open>null\<close> throws a \<^verbatim>\<open>TypeError\<close>, and it
  is the only call that throws: every other call returns, and what a call with an object
  returns is the tag (or \<open>latest\<close> in its place) or the first pre-release component of
  the version, which is a string or a number.
\<close>

theorem getTag_fallback:
  "(\<not> truthy (a_version a) \<or> prerelease (the (a_version a)) = None
       \<or> prerelease (the (a_version a)) = Some []
      \<longrightarrow> getTag_call prerelease (ObjectArgument a)
            = Inr (if a_tag a = Undefined then Str DEFAULT_TAG else a_tag a))
   \<and> getTag_call prerelease NoArgument = Inr (Str DEFAULT_TAG)
   \<and> getTag_call prerelease NullArgument = Inl TypeError
   \<and> (arg \<noteq> NullArgument \<longrightarrow> (\<exists>v. getTag_call prerelease arg = Inr v))
   \<and> (getTag_call prerelease (ObjectArgument a) = Inr v \<longrightarrow>
        v = (if a_tag a = Undefined then Str DEFAULT_TAG else a_tag a)
        \<or> (\<exists>cs. prerelease (the (a_version a)) = Some (v # cs)))"
proof (intro conjI impI)
  assume "\<not> truthy (a_version a) \<or> prerelease (the (a_version a)) = None
       \<or> prerelease (the (a_version a)) = Some []"
  then show "getTag_call prerelease (ObjectArgument a)
            = Inr (if a_tag a = Undefined then Str DEFAULT_TAG else a_tag a)"
    by (auto simp: getTag_call_def getTag_def Let_def)
next
  show "getTag_call prerelease NoArgument = Inr (Str DEFAULT_TAG)"
    by (simp add: getTag_call_def getTag_def)
next
  show "getTag_call prerelease NullArgument = Inl TypeError"
    by (simp add: getTag_call_def)
next
  assume "arg \<noteq> NullArgument"
  then show "\<exists>v. getTag_call prerelease arg = Inr v"
    by (cases arg) (simp_all add: getTag_call_def)
next
  assume "getTag_call prerelease (ObjectArgument a) = Inr v"
  then show "v = (if a_tag a = Undefined then Str DEFAULT_TAG else a_tag a)
        \<or> (\<exists>cs. prerelease (the (a_version a)) = Some (v # cs))"
    by (auto simp: getTag_call_def getTag_def Let_def split: if_splits option.splits list.splits)
qed

theorem getTag_fallback_witness:
  "getTag_call semver_prerelease
       (ObjectArgument \<lparr>a_tag = Undefined, a_version = None, a_isPreRelease = True\<rparr>)
     = Inr (Str ''latest'')
   \<and> getTag_call semver_prerelease
       (ObjectArgument \<lparr>a_tag = Str ''next'', a_version = Some ''2.0.0'', a_isPreRelease = True\<rparr>)
     = Inr (Str ''next'')
   \<and> (\<exists>v. getTag_call semver_prerelease
       (ObjectArgument \<lparr>a_tag = Undefined, a_version = Some ''1.0.1-0'', a_isPreRelease = True\<rparr>)
     = Inr v)
   \<and> getTag_call semver_prerelease
       (ObjectArgument \<lparr>a_tag = Undefined, a_version = Some ''1.0.1-0'', a_isPreRelease = True\<rparr>)
     = Inr (Num 0)
   \<and> (\<exists>cs. semver_prerelease ''1.0.1-0'' = Some (Num 0 # cs))"
proof -
  let ?a = "\<lparr>a_tag = Undefined, a_version = Some ''1.0.1-0'', a_isPreRelease = True\<rparr>"
  have z: "getTag_call semver_prerelease (ObjectArgument ?a) = Inr (Num 0)"
    by (simp add: getTag_call_def getTag_def truthy_def prerelease_zero)
  note t1 = getTag_fallback [of "\<lparr>a_tag = Undefined, a_version = None, a_isPreRelease = True\<rparr>"
      semver_prerelease]
  note t2 = getTag_fallback [of "\<lparr>a_tag = Str ''next'', a_version = Some ''2.0.0'', a_isPreRelease = True\<rparr>"
      semver_prerelease]
  note t3 = getTag_fallback [of ?a semver_prerelease "ObjectArgument ?a" "Num 0"]
  have r1: "getTag_call semver_prerelease
       (ObjectArgument \<lparr>a_tag = Undefined, a_version = None, a_isPreRelease = True\<rparr>)
     = Inr (Str ''latest'')"
    using t1 [THEN conjunct1] by (simp add: truthy_def DEFAULT_TAG_def)
  have r2: "getTag_call semver_prerelease
       (ObjectArgument \<lparr>a_tag = Str ''next'', a_version = Some ''2.0.0'', a_isPreRelease = True\<rparr>)
     = Inr (Str ''next'')"
    using t2 [THEN conjunct1] by (simp add: prerelease_stable)
  have r3: "\<exists>v. getTag_call semver_prerelease (ObjectArgument ?a) = Inr v"
    using t3 [THEN conjunct2, THEN conjunct2, THEN conjunct2, THEN conjunct1] by simp
  have r4: "\<exists>cs. semver_prerelease ''1.0.1-0'' = Some (Num 0 # cs)"
    using t3 [THEN conjunct2, THEN conjunct2, THEN conjunct2, THEN conjunct2] z
    by (simp add: DEFAULT_TAG_def)
  show ?thesis
    by (intro conjI) (rule r1 r2 r3 z r4)+
qed

text \<open>
  C9 as stated fails. With \<open>isPreRelease\<close> true, no version and the tag \<open>null\<close>, the
  result is \<open>null\<close>: not the default tag, and not a tag. A call of \<open>getTag\<close> with
  \<open>null\<close> throws.
\<close>

theorem getTag_null_counterexample:
  "getTag_call semver_prerelease
       (ObjectArgument \<lparr>a_tag = Null, a_version = None, a_isPreRelease = True\<rparr>) = Inr Null
   \<and> Null \<noteq> Str DEFAULT_TAG
   \<and> getTag_call semver_prerelease NullArgument = Inl TypeError"
  by (simp add: getTag_call_def getTag_def truthy_def)

lemma publish_settled:
  "publish pre sh c a answers = Some (r, c') \<Longrightarrow>
     length (shell_calls c') = Suc (length (shell_calls c)) + (otp_prompts c' - otp_prompts c)
     \<and> otp_prompts c \<le> otp_prompts c' \<and> otp_prompts c' \<le> otp_prompts c + length answers
     \<and> options c' = options c
     \<and> (case r of
           Inr u \<Rightarrow> isPublished c'
             \<and> sh (length (shell_calls c') - 1) (command (last (shell_calls c'))) = None
         | Inl e \<Rightarrow> isPublished c' = isPublished c
             \<and> sh (length (shell_calls c') - 1) (command (last (shell_calls c'))) = Some e)
     \<and> (\<not> (isInteractive (options c) \<and> p_otpPrompt a) \<longrightarrow> otp_prompts c' = otp_prompts c)"
proof (induction answers arbitrary: c a)
  case Nil
  then show ?case
    by (auto simp: publish.simps [of pre sh c a "[]"] Let_def split: option.splits if_splits)
next
  case (Cons ans rest)
  show ?case
  proof (cases "sh (length (shell_calls c)) (publish_command pre c a)")
    case None
    with Cons.prems show ?thesis
      by (auto simp: publish.simps [of pre sh c a "ans # rest"] Let_def)
  next
    case (Some err)
    show ?thesis
    proof (cases "contains ''one-time pass'' err \<and> isInteractive (options c) \<and> p_otpPrompt a")
      case False
      with Some Cons.prems show ?thesis
        by (auto simp: publish.simps [of pre sh c a "ans # rest"] Let_def split: if_splits)
    next
      case True
      let ?c1 = "c\<lparr>shell_calls := shell_calls c @
                 [\<lparr>command = publish_command pre c a, isReadOnly = True, verbose = isDryRun (options c)\<rparr>]\<rparr>"
      let ?c2 = "(if effective_otp c a \<noteq> None
                         then ?c1\<lparr>npm_log := npm_log ?c1 @ [LogWarn OTP_WARNING]\<rparr> else ?c1)"
      let ?c3 = "?c2\<lparr>otp_prompts := Suc (otp_prompts ?c2)\<rparr>"
      let ?a' = "a\<lparr>p_tag := effective_tag c a, p_otp := Some ans\<rparr>"
      from True Some Cons.prems have rec: "publish pre sh ?c3 ?a' rest = Some (r, c')"
        by (simp add: publish.simps [of pre sh c a "ans # rest"] Let_def)
      from Cons.IH [OF rec] True show ?thesis
        by (auto split: sum.splits if_splits)
    qed
  qed
qed

text \<open>
  C3. Let the command of a \<open>publish\<close> call fail with \<open>err\<close>. If \<open>err\<close> is not about a
  one-time passcode, the call rejects with \<open>err\<close> itself: one command was run, nothing
  was logged, no prompt was shown. If it is, and the session is not interactive or no
  prompt was passed, the call rejects with \<open>err\<close> at once and shows no prompt (it warns
  when a code had been provided). If it is, and the session is interactive with a prompt,
  the client warns when a code had been provided, shows one prompt, and the call is one
  further \<open>publish\<close> with the code the operator typed; with no answer it never settles.
  In every call that settles, the commands run are one more than the prompts shown, so
  each failure is followed by at most one prompt and one retry, and an error returned is
  the error of the last command run.
\<close>

theorem publish_otp_flow:
  assumes fail: "sh (length (shell_calls c)) (publish_command pre c a) = Some err"
  shows
   "(\<not> contains ''one-time pass'' err \<longrightarrow>
       publish pre sh c a answers =
         Some (Inl err, c\<lparr>shell_calls := shell_calls c @
                 [\<lparr>command = publish_command pre c a, isReadOnly = True, verbose = isDryRun (options c)\<rparr>]\<rparr>))
    \<and> (contains ''one-time pass'' err \<and> \<not> (isInteractive (options c) \<and> p_otpPrompt a) \<longrightarrow>
       (\<exists>c'. publish pre sh c a answers = Some (Inl err, c')
          \<and> otp_prompts c' = otp_prompts c
          \<and> length (shell_calls c') = Suc (length (shell_calls c))
          \<and> npm_log c' = npm_log c @ (if effective_otp c a \<noteq> None then [LogWarn OTP_WARNING] else [])))
    \<and> (contains ''one-time pass'' err \<and> isInteractive (options c) \<and> p_otpPrompt a \<longrightarrow>
       publish pre sh c a [] = None
       \<and> (\<exists>c2. options c2 = options c \<and> isPublished c2 = isPublished c
            \<and> npm_log c2 = npm_log c @ (if effective_otp c a \<noteq> None then [LogWarn OTP_WARNING] else [])
            \<and> length (shell_calls c2) = Suc (length (shell_calls c))
            \<and> otp_prompts c2 = Suc (otp_prompts c)
            \<and> effective_otp c2 (a\<lparr>p_tag := effective_tag c a, p_otp := Some ans\<rparr>) = Some ans
            \<and> publish pre sh c a (ans # rest)
                = publish pre sh c2 (a\<lparr>p_tag := effective_tag c a, p_otp := Some ans\<rparr>) rest))
    \<and> (\<forall>r c'. publish pre sh c a answers = Some (r, c') \<longrightarrow>
          length (shell_calls c') = Suc (length (shell_calls c)) + (otp_prompts c' - otp_prompts c)
          \<and> otp_prompts c' \<le> otp_prompts c + length answers
          \<and> (case r of
                Inr u \<Rightarrow> isPublished c'
              | Inl e \<Rightarrow> sh (length (shell_calls c') - 1) (command (last (shell_calls c'))) = Some e))"
proof (intro conjI impI allI)
  assume "\<not> contains ''one-time pass'' err"
  with fail show "publish pre sh c a answers =
         Some (Inl err, c\<lparr>shell_calls := shell_calls c @
                 [\<lparr>command = publish_command pre c a, isReadOnly = True, verbose = isDryRun (options c)\<rparr>]\<rparr>)"
    by (simp add: publish.simps [of pre sh c a answers] Let_def)
next
  assume "contains ''one-time pass'' err \<and> \<not> (isInteractive (options c) \<and> p_otpPrompt a)"
  with fail show "\<exists>c'. publish pre sh c a answers = Some (Inl err, c')
          \<and> otp_prompts c' = otp_prompts c
          \<and> length (shell_calls c') = Suc (length (shell_calls c))
          \<and> npm_log c' = npm_log c @ (if effective_otp c a \<noteq> None then [LogWarn OTP_WARNING] else [])"
    by (auto simp: publish.simps [of pre sh c a answers] Let_def)
next
  assume "contains ''one-time pass'' err \<and> isInteractive (options c) \<and> p_otpPrompt a"
  with fail show "publish pre sh c a [] = None"
    by (simp add: publish.simps [of pre sh c a "[]"] Let_def)
next
  assume otp: "contains ''one-time pass'' err \<and> isInteractive (options c) \<and> p_otpPrompt a"
  let ?c1 = "c\<lparr>shell_calls := shell_calls c @
                 [\<lparr>command = publish_command pre c a, isReadOnly = True, verbose = isDryRun (options c)\<rparr>]\<rparr>"
  let ?c2 = "(if effective_otp c a \<noteq> None
                         then ?c1\<lparr>npm_log := npm_log ?c1 @ [LogWarn OTP_WARNING]\<rparr> else ?c1)"
  let ?c3 = "?c2\<lparr>otp_prompts := Suc (otp_prompts ?c2)\<rparr>"
  let ?a' = "a\<lparr>p_tag := effective_tag c a, p_otp := Some ans\<rparr>"
  from otp fail have f7: "publish pre sh c a (ans # rest) = publish pre sh ?c3 ?a' rest"
    by (simp add: publish.simps [of pre sh c a "ans # rest"] Let_def)
  have f1: "options ?c3 = options c" by simp
  have f2: "isPublished ?c3 = isPublished c" by simp
  have f3: "npm_log ?c3 = npm_log c @ (if effective_otp c a \<noteq> None then [LogWarn OTP_WARNING] else [])"
    by simp
  have f4: "length (shell_calls ?c3) = Suc (length (shell_calls c))" by simp
  have f5: "otp_prompts ?c3 = Suc (otp_prompts c)" by simp
  have f6: "effective_otp ?c3 ?a' = Some ans" by (simp add: effective_otp_def)
  show "\<exists>c2. options c2 = options c \<and> isPublished c2 = isPublished c
            \<and> npm_log c2 = npm_log c @ (if effective_otp c a \<noteq> None then [LogWarn OTP_WARNING] else [])
            \<and> length (shell_calls c2) = Suc (length (shell_calls c))
            \<and> otp_prompts c2 = Suc (otp_prompts c)
            \<and> effective_otp c2 (a\<lparr>p_tag := effective_tag c a, p_otp := Some ans\<rparr>) = Some ans
            \<and> publish pre sh c a (ans # rest)
                = publish pre sh c2 (a\<lparr>p_tag := effective_tag c a, p_otp := Some ans\<rparr>) rest"
    by (intro exI [of _ ?c3] conjI) (rule f1 f2 f3 f4 f5 f6 f7)+
next
  fix r c'
  assume "publish pre sh c a answers = Some (r, c')"
  from publish_settled [OF this]
  show "length (shell_calls c') = Suc (length (shell_calls c)) + (otp_prompts c' - otp_prompts c)"
    and "otp_prompts c' \<le> otp_prompts c + length answers"
    and "(case r of
                Inr u \<Rightarrow> isPublished c'
              | Inl e \<Rightarrow> sh (length (shell_calls c') - 1) (command (last (shell_calls c'))) = Some e)"
    by (auto split: sum.splits)
qed

lemma eotp_is_otp: "contains ''one-time pass'' EOTP"
  by (simp add: EOTP_def)

lemma e403_not_otp: "\<not> contains ''one-time pass'' E403"
  by (simp add: E403_def)

lemma example_command:
  "publish_command semver_prerelease (example_npm i d) example_publish_args
     = ''npm publish . --tag latest  --otp 000000 '' @ (if d then ''--dry-run'' else [])"
  by (simp add: publish_command_def getTag_def effective_tag_def effective_otp_def
      truthy_def DEFAULT_TAG_def js_to_string_def Let_def example_npm_def
      example_publish_args_def)

lemma example_interactive_run:
  "publish semver_prerelease (fails_once EOTP) (example_npm True False) example_publish_args [''123456'']
     = Some (Inr (),
         (example_npm True False)
           \<lparr>isPublished := True, npm_log := [LogWarn OTP_WARNING],
            shell_calls :=
              [\<lparr>command = ''npm publish . --tag latest  --otp 000000 '', isReadOnly = True, verbose = False\<rparr>,
               \<lparr>command = ''npm publish . --tag latest  --otp 123456 '', isReadOnly = True, verbose = False\<rparr>],
            otp_prompts := 1\<rparr>)"
  by (simp add: publish.simps publish_command_def getTag_def effective_tag_def effective_otp_def
      truthy_def DEFAULT_TAG_def js_to_string_def Let_def example_npm_def
      example_publish_args_def fails_once_def EOTP_def)

theorem publish_otp_flow_witness:
  "fails_once EOTP (length (shell_calls (example_npm False False)))
       (publish_command semver_prerelease (example_npm False False) example_publish_args) = Some EOTP
   \<and> contains ''one-time pass'' EOTP
   \<and> \<not> (isInteractive (options (example_npm False False)) \<and> p_otpPrompt example_publish_args)
   \<and> (\<exists>c'. publish semver_prerelease (fails_once EOTP) (example_npm False False)
              example_publish_args [''123456''] = Some (Inl EOTP, c')
          \<and> otp_prompts c' = otp_prompts (example_npm False False)
          \<and> length (shell_calls c') = Suc (length (shell_calls (example_npm False False))))
   \<and> isInteractive (options (example_npm True False)) \<and> p_otpPrompt example_publish_args
   \<and> publish semver_prerelease (fails_once EOTP) (example_npm True False) example_publish_args [] = None
   \<and> publish semver_prerelease (fails_once EOTP) (example_npm True False) example_publish_args [''123456'']
     = Some (Inr (),
         (example_npm True False)
           \<lparr>isPublished := True, npm_log := [LogWarn OTP_WARNING],
            shell_calls :=
              [\<lparr>command = ''npm publish . --tag latest  --otp 000000 '', isReadOnly = True, verbose = False\<rparr>,
               \<lparr>command = ''npm publish . --tag latest  --otp 123456 '', isReadOnly = True, verbose = False\<rparr>],
            otp_prompts := 1\<rparr>)
   \<and> \<not> contains ''one-time pass'' E403
   \<and> (\<exists>c'. publish semver_prerelease (fails_once E403) (example_npm True False)
              example_publish_args [''123456''] = Some (Inl E403, c')
          \<and> otp_prompts c' = 0 \<and> npm_log c' = [])"
proof -
  have h0: "fails_once EOTP (length (shell_calls (example_npm False False)))
       (publish_command semver_prerelease (example_npm False False) example_publish_args) = Some EOTP"
    by (simp add: fails_once_def example_npm_def)
  have h1: "fails_once EOTP (length (shell_calls (example_npm True False)))
       (publish_command semver_prerelease (example_npm True False) example_publish_args) = Some EOTP"
    by (simp add: fails_once_def example_npm_def)
  have h2: "fails_once E403 (length (shell_calls (example_npm True False)))
       (publish_command semver_prerelease (example_npm True False) example_publish_args) = Some E403"
    by (simp add: fails_once_def example_npm_def)
  have g0: "\<not> (isInteractive (options (example_npm False False)) \<and> p_otpPrompt example_publish_args)"
    by (simp add: example_npm_def)
  have g1: "isInteractive (options (example_npm True False)) \<and> p_otpPrompt example_publish_args"
    by (simp add: example_npm_def example_publish_args_def)
  note t0 = publish_otp_flow [of "fails_once EOTP" "example_npm False False" semver_prerelease
      example_publish_args EOTP "[''123456'']" "''123456''" "[]", OF h0]
  note t1 = publish_otp_flow [of "fails_once EOTP" "example_npm True False" semver_prerelease
      example_publish_args EOTP "[]" "''123456''" "[]", OF h1]
  note t2 = publish_otp_flow [of "fails_once E403" "example_npm True False" semver_prerelease
      example_publish_args E403 "[''123456'']" "''123456''" "[]", OF h2]
  from t0 eotp_is_otp g0
  have r0: "\<exists>c'. publish semver_prerelease (fails_once EOTP) (example_npm False False)
              example_publish_args [''123456''] = Some (Inl EOTP, c')
          \<and> otp_prompts c' = otp_prompts (example_npm False False)
          \<and> length (shell_calls c') = Suc (length (shell_calls (example_npm False False)))"
    by blast
  from t1 eotp_is_otp g1
  have r1: "publish semver_prerelease (fails_once EOTP) (example_npm True False) example_publish_args [] = None"
    by blast
  from t2 e403_not_otp
  have "publish semver_prerelease (fails_once E403) (example_npm True False)
              example_publish_args [''123456''] =
         Some (Inl E403, (example_npm True False)\<lparr>shell_calls := shell_calls (example_npm True False) @
                 [\<lparr>command = publish_command semver_prerelease (example_npm True False) example_publish_args,
                   isReadOnly = True, verbose = isDryRun (options (example_npm True False))\<rparr>]\<rparr>)"
    by blast
  then have r2: "\<exists>c'. publish semver_prerelease (fails_once E403) (example_npm True False)
              example_publish_args [''123456''] = Some (Inl E403, c')
          \<and> otp_prompts c' = 0 \<and> npm_log c' = []"
    by (simp add: example_npm_def)
  show ?thesis
    by (intro conjI) (rule h0 eotp_is_otp g0 r0 g1 [THEN conjunct1] g1 [THEN conjunct2] r1
        example_interactive_run e403_not_otp r2)+
qed

section \<open>Properties of the remote release client\<close>

lemma warnings_append [simp]: "warnings (xs @ ys) = warnings xs @ warnings ys"
  by (induction xs rule: warnings.induct) auto

lemma create_request_of_cong:
  "gh_options c' = gh_options c \<Longrightarrow> gh_repo c' = gh_repo c
     \<Longrightarrow> create_request_of w c' a = create_request_of w c a"
  by (simp add: create_request_of_def)

lemma release_attempt_ok:
  "createRelease w n (create_request_of w c a) = Ok d \<Longrightarrow>
     release_attempt w a c n =
       (Resolved d,
        c\<lparr>requests := requests c @ [CreateRelease (create_request_of w c a)],
          gh_log := gh_log c @ [LogVerbose (release_done_message d)],
          version := r_version a, releaseUrl := rd_html_url d, uploadUrl := rd_upload_url d,
          isReleased := True\<rparr>)"
  by (simp add: release_attempt_def Let_def)

lemma release_attempt_bail:
  "createRelease w n (create_request_of w c a) = Fail err \<Longrightarrow>
   includes_status NO_RETRIES_NEEDED (status err) \<Longrightarrow>
     release_attempt w a c n =
       (Bailed (GithubClientError (parseErrorMessage err)),
        c\<lparr>requests := requests c @ [CreateRelease (create_request_of w c a)]\<rparr>)"
  by (simp add: release_attempt_def Let_def)

lemma release_attempt_throw:
  "createRelease w n (create_request_of w c a) = Fail err \<Longrightarrow>
   \<not> includes_status NO_RETRIES_NEEDED (status err) \<Longrightarrow>
     release_attempt w a c n =
       (Thrown err,
        c\<lparr>requests := requests c @ [CreateRelease (create_request_of w c a)],
          gh_log := gh_log c @ [LogWarn (parseErrorMessage err)]\<rparr>)"
  by (simp add: release_attempt_def Let_def)

lemma follows_policyD:
  assumes "follows_policy Inv out rq fn" and "Inv c" and "fn c n = (res, c1)"
  shows "Inv c1 \<and> requests c1 = requests c @ [rq]
             \<and> (case out n of
                   Ok d \<Rightarrow> res = Resolved d \<and> warnings (gh_log c1) = warnings (gh_log c)
                 | Fail e \<Rightarrow>
                     if includes_status NO_RETRIES_NEEDED (status e)
                     then res = Bailed (GithubClientError (parseErrorMessage e))
                          \<and> warnings (gh_log c1) = warnings (gh_log c)
                     else res = Thrown e
                          \<and> warnings (gh_log c1) = warnings (gh_log c) @ [parseErrorMessage e])"
  using assms(1) [unfolded follows_policy_def, rule_format, OF assms(2), of n] assms(3)
  by simp

lemma retry_from_policy:
  assumes pol: "follows_policy Inv out rq fn"
  shows "Inv c \<Longrightarrow> retry_from fn n k errs c = (r, c') \<Longrightarrow>
     \<exists>j\<le>k. Inv c' \<and> requests c' = requests c @ replicate (Suc j) rq
        \<and> (\<forall>i<j. \<exists>e. out (n + i) = Fail e \<and> \<not> includes_status NO_RETRIES_NEEDED (status e))
        \<and> policy_result out n k j (length (warnings (gh_log c')) - length (warnings (gh_log c))) r
        \<and> length (warnings (gh_log c)) \<le> length (warnings (gh_log c'))"
proof (induction k arbitrary: n errs c)
  case 0
  obtain res c1 where f: "fn c n = (res, c1)" by (cases "fn c n")
  note h = follows_policyD [OF pol "0.prems"(1) f]
  from h f "0.prems"(2) show ?case
    by (auto simp: policy_result_def split: outcome.splits if_splits)
next
  case (Suc k)
  obtain res c1 where f: "fn c n = (res, c1)" by (cases "fn c n")
  note h = follows_policyD [OF pol Suc.prems(1) f]
  show ?case
  proof (cases res)
    case (Resolved d)
    with f h Suc.prems(2) show ?thesis
      by (intro exI [of _ 0]) (auto simp: policy_result_def split: outcome.splits if_splits)
  next
    case (Bailed e)
    with f h Suc.prems(2) show ?thesis
      by (intro exI [of _ 0]) (auto simp: policy_result_def split: outcome.splits if_splits)
  next
    case (Thrown t)
    with f Suc.prems(2) have rec: "retry_from fn (Suc n) k (errs @ [t]) c1 = (r, c')" by simp
    from h have inv1: "Inv c1" by simp
    from Thrown h have out_n: "out n = Fail t \<and> \<not> includes_status NO_RETRIES_NEEDED (status t)"
      and w1: "warnings (gh_log c1) = warnings (gh_log c) @ [parseErrorMessage t]"
      by (auto split: outcome.splits if_splits)
    from Suc.IH [OF inv1 rec] obtain j where j: "j \<le> k" "Inv c'"
      "requests c' = requests c1 @ replicate (Suc j) rq"
      "\<forall>i<j. \<exists>e. out (Suc n + i) = Fail e \<and> \<not> includes_status NO_RETRIES_NEEDED (status e)"
      "policy_result out (Suc n) k j (length (warnings (gh_log c')) - length (warnings (gh_log c1))) r"
      "length (warnings (gh_log c1)) \<le> length (warnings (gh_log c'))"
      by blast
    have all: "\<forall>i<Suc j. \<exists>e. out (n + i) = Fail e \<and> \<not> includes_status NO_RETRIES_NEEDED (status e)"
    proof (intro allI impI)
      fix i assume "i < Suc j"
      then show "\<exists>e. out (n + i) = Fail e \<and> \<not> includes_status NO_RETRIES_NEEDED (status e)"
        using out_n j(4) by (cases i) auto
    qed
    have len: "length (warnings (gh_log c')) - length (warnings (gh_log c))
                 = Suc (length (warnings (gh_log c')) - length (warnings (gh_log c1)))"
      using w1 j(6) by simp
    have res: "policy_result out n (Suc k) (Suc j)
                 (length (warnings (gh_log c')) - length (warnings (gh_log c))) r"
      using j(5) unfolding len
      by (auto simp: policy_result_def split: sum.splits error.splits)
    from h have "requests c1 = requests c @ [rq]" by simp
    with j(3) have rq': "requests c' = requests c @ replicate (Suc (Suc j)) rq" by simp
    from w1 j(6) have wl: "length (warnings (gh_log c)) \<le> length (warnings (gh_log c'))" by simp
    from j(1) have jk: "Suc j \<le> Suc k" by simp
    show ?thesis
      by (intro exI [of _ "Suc j"] conjI) (rule jk j(2) rq' all res wl)+
  qed
qed

lemma getGithubClient_keeps:
  "requests (snd (getGithubClient w c)) = requests c
   \<and> gh_log (snd (getGithubClient w c)) = gh_log c
   \<and> gh_options (snd (getGithubClient w c)) = gh_options c
   \<and> gh_repo (snd (getGithubClient w c)) = gh_repo c
   \<and> uploadUrl (snd (getGithubClient w c)) = uploadUrl c
   \<and> isReleased (snd (getGithubClient w c)) = isReleased c
   \<and> version (snd (getGithubClient w c)) = version c
   \<and> releaseUrl (snd (getGithubClient w c)) = releaseUrl c"
  by (simp add: getGithubClient_def Let_def split: option.splits)

lemma release_attempt_policy:
  "follows_policy (\<lambda>c'. gh_options c' = gh_options c \<and> gh_repo c' = gh_repo c)
     (\<lambda>n. createRelease w n (create_request_of w c a))
     (CreateRelease (create_request_of w c a)) (release_attempt w a)"
  unfolding follows_policy_def
  by (auto simp: release_attempt_def Let_def create_request_of_def split: outcome.splits)

lemma upload_attempt_policy:
  "follows_policy (\<lambda>c'. True) (\<lambda>n. uploadReleaseAsset w n rq) (UploadReleaseAsset rq)
     (upload_attempt w rq)"
  unfolding follows_policy_def
  by (auto simp: upload_attempt_def Let_def split: outcome.splits)

lemma policy_bail_first:
  assumes "\<forall>i<j. \<exists>e. out (n + i) = Fail e \<and> \<not> includes_status NO_RETRIES_NEEDED (status e)"
    and "policy_result out n k j nw r0"
    and "out n = Fail err" and "includes_status NO_RETRIES_NEEDED (status err)"
  shows "j = 0 \<and> r0 = Inl (GithubClientError (parseErrorMessage err)) \<and> nw = 0"
proof -
  have j0: "j = 0"
  proof (rule ccontr)
    assume "j \<noteq> 0"
    then have "0 < j" by simp
    with assms(1) have "\<exists>e. out (n + 0) = Fail e \<and> \<not> includes_status NO_RETRIES_NEEDED (status e)"
      by blast
    with assms(3,4) show False by simp
  qed
  with assms(2,3,4) show ?thesis
    by (auto simp: policy_result_def split: sum.splits error.splits)
qed

lemma policy_exhaust:
  assumes "j \<le> k" and "policy_result out n k j nw r0"
    and "\<forall>i\<le>k. \<exists>e. out (n + i) = Fail e \<and> \<not> includes_status NO_RETRIES_NEEDED (status e)"
  shows "j = k \<and> (\<exists>es. r0 = Inl (RetriesExhausted es)) \<and> nw = Suc k"
proof -
  from assms(1,3) obtain e where e: "out (n + j) = Fail e"
    "\<not> includes_status NO_RETRIES_NEEDED (status e)" by blast
  with assms(2) show ?thesis
    by (auto simp: policy_result_def split: sum.splits error.splits)
qed

lemma release_gh_shape:
  assumes live: "\<not> isDryRun (gh_options c)" and run: "release_gh w c a = (r, c')"
  shows "\<exists>j\<le>2. \<exists>r0. r = map_sum id Some r0
     \<and> requests c' = requests c @ replicate (Suc j) (CreateRelease (create_request_of w c a))
     \<and> (\<forall>i<j. \<exists>e. createRelease w (1 + i) (create_request_of w c a) = Fail e
            \<and> \<not> includes_status NO_RETRIES_NEEDED (status e))
     \<and> policy_result (\<lambda>n. createRelease w n (create_request_of w c a)) 1 2 j
          (length (warnings (gh_log c')) - length (warnings (gh_log c))) r0
     \<and> length (warnings (gh_log c)) \<le> length (warnings (gh_log c'))"
proof -
  let ?c1 = "c\<lparr>gh_log := gh_log c @ [LogExec ''octokit releases#createRelease'']\<rparr>"
  let ?c2 = "snd (getGithubClient w ?c1)"
  obtain r0 c3 where rt: "retry (release_attempt w a) 2 ?c2 = (r0, c3)"
    by (cases "retry (release_attempt w a) 2 ?c2")
  with live run have r: "r = map_sum id Some r0" and c': "c' = c3"
    by (auto simp: release_gh_def Let_def split: sum.splits)
  have keep: "requests ?c2 = requests c" "gh_options ?c2 = gh_options c" "gh_repo ?c2 = gh_repo c"
    "warnings (gh_log ?c2) = warnings (gh_log c)"
    by (simp_all add: getGithubClient_keeps)
  then have rq: "create_request_of w ?c2 a = create_request_of w c a"
    by (simp add: create_request_of_def)
  from rt have rf: "retry_from (release_attempt w a) 1 2 [] ?c2 = (r0, c3)"
    by (simp add: retry_def)
  have inv: "gh_options ?c2 = gh_options ?c2 \<and> gh_repo ?c2 = gh_repo ?c2" by simp
  from retry_from_policy [OF release_attempt_policy [of ?c2 w a] inv rf]
  show ?thesis unfolding rq keep r c' by blast
qed

lemma uploadAsset_shape:
  assumes stat: "statSync w f = Inr len" and run: "uploadAsset w c f = (r, c')"
  defines "rq \<equiv> \<lparr>up_url = uploadUrl c, up_file = f, up_name = basename f,
       up_content_type = (if truthy (contentType w (basename f)) then the (contentType w (basename f))
                          else ''application/octet-stream''),
       up_content_length = len\<rparr>"
  shows "\<exists>j\<le>2. \<exists>r0. r = Promise r0
     \<and> requests c' = requests c @ replicate (Suc j) (UploadReleaseAsset rq)
     \<and> (\<forall>i<j. \<exists>e. uploadReleaseAsset w (1 + i) rq = Fail e
            \<and> \<not> includes_status NO_RETRIES_NEEDED (status e))
     \<and> policy_result (\<lambda>n. uploadReleaseAsset w n rq) 1 2 j
          (length (warnings (gh_log c')) - length (warnings (gh_log c))) r0
     \<and> length (warnings (gh_log c)) \<le> length (warnings (gh_log c'))"
proof -
  let ?c1 = "snd (getGithubClient w c)"
  have keep: "requests ?c1 = requests c" "uploadUrl ?c1 = uploadUrl c"
    "warnings (gh_log ?c1) = warnings (gh_log c)"
    by (simp_all add: getGithubClient_keeps)
  obtain r0 c2 where rf: "retry_from (upload_attempt w rq) 1 2 [] ?c1 = (r0, c2)"
    by (cases "retry_from (upload_attempt w rq) 1 2 [] ?c1")
  with stat run have r: "r = Promise r0" and c': "c' = c2"
    by (simp_all add: uploadAsset_def Let_def retry_def rq_def keep)
  from retry_from_policy [OF upload_attempt_policy [of w rq] TrueI rf]
  show ?thesis unfolding keep r c' by blast
qed

lemma replace_breaks_id:
  "\<forall>c\<in>set m. c \<noteq> CHR 0x0A \<and> c \<noteq> CHR 0x0D \<Longrightarrow> replace_breaks b m = m"
  by (induction m arbitrary: b) simp_all

lemma replace_breaks_clean:
  "x \<in> set (replace_breaks b m) \<Longrightarrow> x \<noteq> CHR 0x0A \<and> x \<noteq> CHR 0x0D"
  by (induction m arbitrary: b) (auto split: if_splits)

lemma of_char_digit_char: "d < 10 \<Longrightarrow> (of_char (digit_char d) :: int) = 48 + int d"
proof -
  assume "d < 10"
  then have "d \<in> {0, 1, 2, 3, 4, 5, 6, 7, 8, 9}" by auto
  then show ?thesis by (auto simp: digit_char_def)
qed

lemma int_of_digits_snoc:
  "int_of_digits (ds @ [c]) = 10 * int_of_digits ds + (of_char c - 48)"
  by (simp add: int_of_digits_def)

lemma int_of_digits_string_of_nat: "int_of_digits (string_of_nat n) = int n"
proof (induction n rule: string_of_nat.induct)
  case (1 n)
  show ?case
  proof (cases "n < 10")
    case True
    then show ?thesis
      by (subst string_of_nat.simps) (simp add: int_of_digits_def of_char_digit_char)
  next
    case False
    then have ih: "int_of_digits (string_of_nat (n div 10)) = int (n div 10)"
      using 1 by simp
    have m: "n mod 10 < 10" by simp
    from False show ?thesis
      by (subst string_of_nat.simps)
        (simp add: int_of_digits_snoc ih of_char_digit_char [OF m] zdiv_int zmod_int)
  qed
qed

lemma is_digit_digit_char: "d < 10 \<Longrightarrow> is_digit (digit_char d)"
  by (simp add: is_digit_def of_char_digit_char)

lemma string_of_nat_digits: "list_all is_digit (string_of_nat n) \<and> string_of_nat n \<noteq> []"
proof (induction n rule: string_of_nat.induct)
  case (1 n)
  show ?case
  proof (cases "n < 10")
    case True
    then show ?thesis
      by (subst (1 2) string_of_nat.simps) (simp add: is_digit_digit_char)
  next
    case False
    with 1 have ih: "list_all is_digit (string_of_nat (n div 10))" by simp
    have m: "n mod 10 < 10" by simp
    from False show ?thesis
      by (subst (1 2) string_of_nat.simps) (simp add: ih is_digit_digit_char [OF m])
  qed
qed

text \<open>
  C1. \<open>release\<close> (outside dry-run mode) and \<open>uploadAsset\<close> (on a file that can be read)
  send their request at least once and at most three times, each time the same request;
  every attempt before the last one failed with an error whose status is none of 400,
  401, 404, 422. The last attempt either succeeded, or failed with one of these statuses,
  and then the call rejects with a client error whose message is the parsed status and
  message, or was the third attempt. A warning is logged for every failure that is
  retried, before the retry, and for the failure of a third attempt; none is logged for a
  failure with one of the four statuses. In particular a first attempt that fails with
  one of the four statuses is the only attempt, and three failures with other statuses
  are three attempts and three warnings. In one attempt, the warning logged is the parsed
  message of the failure. The parsed message of an error with the status \<open>st\<close> and the
  message \<open>m\<close> is the decimal numeral of \<open>st\<close>, a space, and in parentheses \<open>m\<close> with
  every run of line breaks replaced by one space; a value thrown that is not an error is
  its own message.
\<close>

theorem retry_policy:
  fixes w :: world and c :: github and a :: release_args and f :: string and len :: int
  defines "rq \<equiv> create_request_of w c a"
  defines "up \<equiv> \<lparr>up_url = uploadUrl c, up_file = f, up_name = basename f,
       up_content_type = (if truthy (contentType w (basename f)) then the (contentType w (basename f))
                          else ''application/octet-stream''),
       up_content_length = len\<rparr>"
  assumes live: "\<not> isDryRun (gh_options c)" and stat: "statSync w f = Inr len"
  shows
   "(\<forall>st. includes_status NO_RETRIES_NEEDED st = (st \<in> {Some 400, Some 401, Some 404, Some 422}))
    \<and> (\<forall>r c'. release_gh w c a = (r, c') \<longrightarrow>
         (\<exists>j\<le>2. \<exists>r0. r = map_sum id Some r0
            \<and> requests c' = requests c @ replicate (Suc j) (CreateRelease rq)
            \<and> (\<forall>i<j. \<exists>e. createRelease w (1 + i) rq = Fail e
                   \<and> \<not> includes_status NO_RETRIES_NEEDED (status e))
            \<and> policy_result (\<lambda>n. createRelease w n rq) 1 2 j
                 (length (warnings (gh_log c')) - length (warnings (gh_log c))) r0
            \<and> length (warnings (gh_log c)) \<le> length (warnings (gh_log c'))))
    \<and> (\<forall>err. createRelease w 1 rq = Fail err \<and> includes_status NO_RETRIES_NEEDED (status err) \<longrightarrow>
         (\<exists>c'. release_gh w c a = (Inl (GithubClientError (parseErrorMessage err)), c')
            \<and> requests c' = requests c @ [CreateRelease rq]
            \<and> length (warnings (gh_log c')) = length (warnings (gh_log c))))
    \<and> ((\<forall>i\<le>2. \<exists>e. createRelease w (1 + i) rq = Fail e
            \<and> \<not> includes_status NO_RETRIES_NEEDED (status e)) \<longrightarrow>
         (\<exists>es c'. release_gh w c a = (Inl (RetriesExhausted es), c')
            \<and> requests c' = requests c @ replicate 3 (CreateRelease rq)
            \<and> length (warnings (gh_log c')) = length (warnings (gh_log c)) + 3))
    \<and> (\<forall>r c'. uploadAsset w c f = (r, c') \<longrightarrow>
         (\<exists>j\<le>2. \<exists>r0. r = Promise r0
            \<and> requests c' = requests c @ replicate (Suc j) (UploadReleaseAsset up)
            \<and> (\<forall>i<j. \<exists>e. uploadReleaseAsset w (1 + i) up = Fail e
                   \<and> \<not> includes_status NO_RETRIES_NEEDED (status e))
            \<and> policy_result (\<lambda>n. uploadReleaseAsset w n up) 1 2 j
                 (length (warnings (gh_log c')) - length (warnings (gh_log c))) r0
            \<and> length (warnings (gh_log c)) \<le> length (warnings (gh_log c'))))
    \<and> (\<forall>err. uploadReleaseAsset w 1 up = Fail err \<and> includes_status NO_RETRIES_NEEDED (status err) \<longrightarrow>
         (\<exists>c'. uploadAsset w c f = (Promise (Inl (GithubClientError (parseErrorMessage err))), c')
            \<and> requests c' = requests c @ [UploadReleaseAsset up]
            \<and> length (warnings (gh_log c')) = length (warnings (gh_log c))))
    \<and> ((\<forall>i\<le>2. \<exists>e. uploadReleaseAsset w (1 + i) up = Fail e
            \<and> \<not> includes_status NO_RETRIES_NEEDED (status e)) \<longrightarrow>
         (\<exists>es c'. uploadAsset w c f = (Promise (Inl (RetriesExhausted es)), c')
            \<and> requests c' = requests c @ replicate 3 (UploadReleaseAsset up)
            \<and> length (warnings (gh_log c')) = length (warnings (gh_log c)) + 3))
    \<and> follows_policy (\<lambda>c'. gh_options c' = gh_options c \<and> gh_repo c' = gh_repo c)
         (\<lambda>n. createRelease w n rq) (CreateRelease rq) (release_attempt w a)
    \<and> follows_policy (\<lambda>c'. True) (\<lambda>n. uploadReleaseAsset w n up) (UploadReleaseAsset up)
         (upload_attempt w up)
    \<and> (\<forall>st m. parseErrorMessage (ErrorObj (Some st) m)
          = string_of_int st @ '' ('' @ replace_breaks False m @ '')'')
    \<and> (\<forall>m. parseErrorMessage (ErrorObj None m) = ''undefined ('' @ replace_breaks False m @ '')'')
    \<and> (\<forall>v. parseErrorMessage (NonError v) = v)
    \<and> string_of_int 400 = ''400'' \<and> string_of_int 401 = ''401''
    \<and> string_of_int 404 = ''404'' \<and> string_of_int 422 = ''422''
    \<and> (\<forall>n. 0 \<le> n \<longrightarrow> int_of_digits (string_of_int n) = n)
    \<and> (\<forall>n. 0 \<le> n \<longrightarrow> list_all is_digit (string_of_int n))
    \<and> (\<forall>m. (\<forall>x\<in>set m. x \<noteq> CHR 0x0A \<and> x \<noteq> CHR 0x0D) \<longrightarrow> replace_breaks False m = m)
    \<and> (\<forall>m. \<forall>x\<in>set (replace_breaks False m). x \<noteq> CHR 0x0A \<and> x \<noteq> CHR 0x0D)
    \<and> replace_breaks False (''Not'' @ [CHR 0x0D, CHR 0x0A] @ ''Found'') = ''Not Found''"
proof (intro conjI allI impI)
  fix st show "includes_status NO_RETRIES_NEEDED st = (st \<in> {Some 400, Some 401, Some 404, Some 422})"
    by (cases st) (auto simp: includes_status_def NO_RETRIES_NEEDED_def)
next
  fix r c' assume "release_gh w c a = (r, c')"
  from release_gh_shape [OF live this]
  show "\<exists>j\<le>2. \<exists>r0. r = map_sum id Some r0
            \<and> requests c' = requests c @ replicate (Suc j) (CreateRelease rq)
            \<and> (\<forall>i<j. \<exists>e. createRelease w (1 + i) rq = Fail e
                   \<and> \<not> includes_status NO_RETRIES_NEEDED (status e))
            \<and> policy_result (\<lambda>n. createRelease w n rq) 1 2 j
                 (length (warnings (gh_log c')) - length (warnings (gh_log c))) r0
            \<and> length (warnings (gh_log c)) \<le> length (warnings (gh_log c'))"
    unfolding rq_def .
next
  fix err assume h: "createRelease w 1 rq = Fail err \<and> includes_status NO_RETRIES_NEEDED (status err)"
  obtain r c' where run: "release_gh w c a = (r, c')" by (cases "release_gh w c a")
  from release_gh_shape [OF live run] obtain j r0 where s:
    "r = map_sum id Some r0"
    "requests c' = requests c @ replicate (Suc j) (CreateRelease rq)"
    "\<forall>i<j. \<exists>e. createRelease w (1 + i) rq = Fail e \<and> \<not> includes_status NO_RETRIES_NEEDED (status e)"
    "policy_result (\<lambda>n. createRelease w n rq) 1 2 j
       (length (warnings (gh_log c')) - length (warnings (gh_log c))) r0"
    "length (warnings (gh_log c)) \<le> length (warnings (gh_log c'))"
    unfolding rq_def by blast
  from policy_bail_first [OF s(3) s(4)] h
  have "j = 0 \<and> r0 = Inl (GithubClientError (parseErrorMessage err))
        \<and> length (warnings (gh_log c')) - length (warnings (gh_log c)) = 0" by simp
  with s(1,2,5) run
  show "\<exists>c'. release_gh w c a = (Inl (GithubClientError (parseErrorMessage err)), c')
            \<and> requests c' = requests c @ [CreateRelease rq]
            \<and> length (warnings (gh_log c')) = length (warnings (gh_log c))"
    by (intro exI [of _ c']) simp
next
  assume h: "\<forall>i\<le>2. \<exists>e. createRelease w (1 + i) rq = Fail e
            \<and> \<not> includes_status NO_RETRIES_NEEDED (status e)"
  obtain r c' where run: "release_gh w c a = (r, c')" by (cases "release_gh w c a")
  from release_gh_shape [OF live run] obtain j r0 where s:
    "j \<le> 2" "r = map_sum id Some r0"
    "requests c' = requests c @ replicate (Suc j) (CreateRelease rq)"
    "policy_result (\<lambda>n. createRelease w n rq) 1 2 j
       (length (warnings (gh_log c')) - length (warnings (gh_log c))) r0"
    "length (warnings (gh_log c)) \<le> length (warnings (gh_log c'))"
    unfolding rq_def by blast
  from policy_exhaust [OF s(1) s(4) h] obtain es where
    e: "j = 2" "r0 = Inl (RetriesExhausted es)"
       "length (warnings (gh_log c')) - length (warnings (gh_log c)) = Suc 2" by blast
  with s(2,3,5) run
  show "\<exists>es c'. release_gh w c a = (Inl (RetriesExhausted es), c')
            \<and> requests c' = requests c @ replicate 3 (CreateRelease rq)
            \<and> length (warnings (gh_log c')) = length (warnings (gh_log c)) + 3"
    by (intro exI [of _ es] exI [of _ c']) (simp add: numeral_3_eq_3)
next
  fix r c' assume "uploadAsset w c f = (r, c')"
  from uploadAsset_shape [OF stat this]
  show "\<exists>j\<le>2. \<exists>r0. r = Promise r0
            \<and> requests c' = requests c @ replicate (Suc j) (UploadReleaseAsset up)
            \<and> (\<forall>i<j. \<exists>e. uploadReleaseAsset w (1 + i) up = Fail e
                   \<and> \<not> includes_status NO_RETRIES_NEEDED (status e))
            \<and> policy_result (\<lambda>n. uploadReleaseAsset w n up) 1 2 j
                 (length (warnings (gh_log c')) - length (warnings (gh_log c))) r0
            \<and> length (warnings (gh_log c)) \<le> length (warnings (gh_log c'))"
    unfolding up_def .
next
  fix err assume h: "uploadReleaseAsset w 1 up = Fail err \<and> includes_status NO_RETRIES_NEEDED (status err)"
  obtain r c' where run: "uploadAsset w c f = (r, c')" by (cases "uploadAsset w c f")
  from uploadAsset_shape [OF stat run] obtain j r0 where r: "r = Promise r0" and s:
    "requests c' = requests c @ replicate (Suc j) (UploadReleaseAsset up)"
    "\<forall>i<j. \<exists>e. uploadReleaseAsset w (1 + i) up = Fail e \<and> \<not> includes_status NO_RETRIES_NEEDED (status e)"
    "policy_result (\<lambda>n. uploadReleaseAsset w n up) 1 2 j
       (length (warnings (gh_log c')) - length (warnings (gh_log c))) r0"
    "length (warnings (gh_log c)) \<le> length (warnings (gh_log c'))"
    unfolding up_def by blast
  from policy_bail_first [OF s(2) s(3)] h
  have "j = 0 \<and> r0 = Inl (GithubClientError (parseErrorMessage err))
        \<and> length (warnings (gh_log c')) - length (warnings (gh_log c)) = 0" by simp
  with s(1,4) run r
  show "\<exists>c'. uploadAsset w c f = (Promise (Inl (GithubClientError (parseErrorMessage err))), c')
            \<and> requests c' = requests c @ [UploadReleaseAsset up]
            \<and> length (warnings (gh_log c')) = length (warnings (gh_log c))"
    by (intro exI [of _ c']) simp
next
  assume h: "\<forall>i\<le>2. \<exists>e. uploadReleaseAsset w (1 + i) up = Fail e
            \<and> \<not> includes_status NO_RETRIES_NEEDED (status e)"
  obtain r c' where run: "uploadAsset w c f = (r, c')" by (cases "uploadAsset w c f")
  from uploadAsset_shape [OF stat run] obtain j r0 where r: "r = Promise r0" and s:
    "j \<le> 2"
    "requests c' = requests c @ replicate (Suc j) (UploadReleaseAsset up)"
    "policy_result (\<lambda>n. uploadReleaseAsset w n up) 1 2 j
       (length (warnings (gh_log c')) - length (warnings (gh_log c))) r0"
    "length (warnings (gh_log c)) \<le> length (warnings (gh_log c'))"
    unfolding up_def by blast
  from policy_exhaust [OF s(1) s(3) h] obtain es where
    e: "j = 2" "r0 = Inl (RetriesExhausted es)"
       "length (warnings (gh_log c')) - length (warnings (gh_log c)) = Suc 2" by blast
  with s(2,4) run r
  show "\<exists>es c'. uploadAsset w c f = (Promise (Inl (RetriesExhausted es)), c')
            \<and> requests c' = requests c @ replicate 3 (UploadReleaseAsset up)
            \<and> length (warnings (gh_log c')) = length (warnings (gh_log c)) + 3"
    by (intro exI [of _ es] exI [of _ c']) (simp add: numeral_3_eq_3)
next
  show "follows_policy (\<lambda>c'. gh_options c' = gh_options c \<and> gh_repo c' = gh_repo c)
         (\<lambda>n. createRelease w n rq) (CreateRelease rq) (release_attempt w a)"
    unfolding rq_def by (rule release_attempt_policy)
next
  show "follows_policy (\<lambda>c'. True) (\<lambda>n. uploadReleaseAsset w n up) (UploadReleaseAsset up)
         (upload_attempt w up)"
    by (rule upload_attempt_policy)
next
  fix st m show "parseErrorMessage (ErrorObj (Some st) m)
          = string_of_int st @ '' ('' @ replace_breaks False m @ '')''"
    by (simp add: parseErrorMessage_def)
next
  fix m show "parseErrorMessage (ErrorObj None m) = ''undefined ('' @ replace_breaks False m @ '')''"
    by (simp add: parseErrorMessage_def)
next
  fix v show "parseErrorMessage (NonError v) = v"
    by (simp add: parseErrorMessage_def)
next
  show "string_of_int 400 = ''400''"
    by (simp add: string_of_int_def string_of_nat.simps digit_char_def)
next
  show "string_of_int 401 = ''401''"
    by (simp add: string_of_int_def string_of_nat.simps digit_char_def)
next
  show "string_of_int 404 = ''404''"
    by (simp add: string_of_int_def string_of_nat.simps digit_char_def)
next
  show "string_of_int 422 = ''422''"
    by (simp add: string_of_int_def string_of_nat.simps digit_char_def)
next
  fix n :: int assume "0 \<le> n"
  then show "int_of_digits (string_of_int n) = n"
    by (simp add: string_of_int_def int_of_digits_string_of_nat)
next
  fix n :: int assume "0 \<le> n"
  then show "list_all is_digit (string_of_int n)"
    by (simp add: string_of_int_def string_of_nat_digits)
next
  fix m assume "\<forall>x\<in>set m. x \<noteq> CHR 0x0A \<and> x \<noteq> CHR 0x0D"
  then show "replace_breaks False m = m"
    by (rule replace_breaks_id)
next
  fix m show "\<forall>x\<in>set (replace_breaks False m). x \<noteq> CHR 0x0A \<and> x \<noteq> CHR 0x0D"
    using replace_breaks_clean by blast
next
  show "replace_breaks False (''Not'' @ [CHR 0x0D, CHR 0x0A] @ ''Found'') = ''Not Found''"
    by simp
qed

lemma parse_E422: "parseErrorMessage E422 = ''422 (Validation Failed)''"
  by (simp add: parseErrorMessage_def E422_def string_of_int_def string_of_nat.simps digit_char_def)

lemma E422_no_retry: "includes_status NO_RETRIES_NEEDED (status E422)"
  by (simp add: includes_status_def NO_RETRIES_NEEDED_def status_def E422_def)

lemma E500_retry: "\<not> includes_status NO_RETRIES_NEEDED (status E500)"
  by (simp add: includes_status_def NO_RETRIES_NEEDED_def status_def E500_def)

theorem retry_policy_witness:
  "\<not> isDryRun (gh_options (example_github False))
   \<and> statSync (failing_world E422) ''dist/app.zip'' = Inr 1024
   \<and> statSync (failing_world E500) ''dist/app.zip'' = Inr 1024
   \<and> (\<exists>c'. release_gh (failing_world E422) (example_github False) example_release_args
            = (Inl (GithubClientError ''422 (Validation Failed)''), c')
          \<and> length (requests c') = 1 \<and> length (warnings (gh_log c')) = 0)
   \<and> (\<exists>es c'. release_gh (failing_world E500) (example_github False) example_release_args
            = (Inl (RetriesExhausted es), c')
          \<and> length (requests c') = 3 \<and> length (warnings (gh_log c')) = 3)
   \<and> (\<exists>c'. uploadAsset (failing_world E422) (example_github False) ''dist/app.zip''
            = (Promise (Inl (GithubClientError ''422 (Validation Failed)'')), c')
          \<and> length (requests c') = 1 \<and> length (warnings (gh_log c')) = 0)
   \<and> (\<exists>es c'. uploadAsset (failing_world E500) (example_github False) ''dist/app.zip''
            = (Promise (Inl (RetriesExhausted es)), c')
          \<and> length (requests c') = 3 \<and> length (warnings (gh_log c')) = 3)
   \<and> parseErrorMessage E500 = ''500 (Internal Server Error)''
   \<and> int_of_digits (string_of_int 500) = 500
   \<and> list_all is_digit (string_of_int 500)"
proof -
  have live: "\<not> isDryRun (gh_options (example_github False))"
    by (simp add: example_github_def)
  have s422: "statSync (failing_world E422) ''dist/app.zip'' = Inr 1024"
    by (simp add: failing_world_def)
  have s500: "statSync (failing_world E500) ''dist/app.zip'' = Inr 1024"
    by (simp add: failing_world_def)
  have c422: "\<And>n rq. createRelease (failing_world E422) n rq = Fail E422"
    and u422: "\<And>n rq. uploadReleaseAsset (failing_world E422) n rq = Fail E422"
    and c500: "\<And>n rq. createRelease (failing_world E500) n rq = Fail E500"
    and u500: "\<And>n rq. uploadReleaseAsset (failing_world E500) n rq = Fail E500"
    by (simp_all add: failing_world_def)
  have start: "requests (example_github False) = []" "gh_log (example_github False) = []"
    by (simp_all add: example_github_def)
  note t422 = retry_policy [of "example_github False" "failing_world E422" "''dist/app.zip''" 1024
      example_release_args, OF live s422]
  note t500 = retry_policy [of "example_github False" "failing_world E500" "''dist/app.zip''" 1024
      example_release_args, OF live s500]
  from t422 [THEN conjunct2, THEN conjunct2, THEN conjunct1, rule_format,
      OF conjI [OF c422 E422_no_retry]]
  obtain c1 where c1: "release_gh (failing_world E422) (example_github False) example_release_args
            = (Inl (GithubClientError (parseErrorMessage E422)), c1)"
      "requests c1 = requests (example_github False)
         @ [CreateRelease (create_request_of (failing_world E422) (example_github False) example_release_args)]"
      "length (warnings (gh_log c1)) = length (warnings (gh_log (example_github False)))"
    by blast
  have r1: "\<exists>c'. release_gh (failing_world E422) (example_github False) example_release_args
            = (Inl (GithubClientError ''422 (Validation Failed)''), c')
          \<and> length (requests c') = 1 \<and> length (warnings (gh_log c')) = 0"
    using c1 by (intro exI [of _ c1]) (simp add: start parse_E422)
  from t500 [THEN conjunct2, THEN conjunct2, THEN conjunct2, THEN conjunct1, rule_format]
    c500 E500_retry
  obtain es2 c2 where c2: "release_gh (failing_world E500) (example_github False) example_release_args
            = (Inl (RetriesExhausted es2), c2)"
      "requests c2 = requests (example_github False)
         @ replicate 3 (CreateRelease (create_request_of (failing_world E500) (example_github False) example_release_args))"
      "length (warnings (gh_log c2)) = length (warnings (gh_log (example_github False))) + 3"
    by blast
  have r2: "\<exists>es c'. release_gh (failing_world E500) (example_github False) example_release_args
            = (Inl (RetriesExhausted es), c')
          \<and> length (requests c') = 3 \<and> length (warnings (gh_log c')) = 3"
    using c2 by (intro exI [of _ es2] exI [of _ c2]) (simp add: start)
  from t422 [THEN conjunct2, THEN conjunct2, THEN conjunct2, THEN conjunct2, THEN conjunct2,
      THEN conjunct1, rule_format, OF conjI [OF u422 E422_no_retry]]
  obtain c3 where c3: "uploadAsset (failing_world E422) (example_github False) ''dist/app.zip''
            = (Promise (Inl (GithubClientError (parseErrorMessage E422))), c3)"
      "length (requests c3) = Suc (length (requests (example_github False)))"
      "length (warnings (gh_log c3)) = length (warnings (gh_log (example_github False)))"
    by auto
  have r3: "\<exists>c'. uploadAsset (failing_world E422) (example_github False) ''dist/app.zip''
            = (Promise (Inl (GithubClientError ''422 (Validation Failed)'')), c')
          \<and> length (requests c') = 1 \<and> length (warnings (gh_log c')) = 0"
    using c3 by (intro exI [of _ c3]) (simp add: start parse_E422)
  from t500 [THEN conjunct2, THEN conjunct2, THEN conjunct2, THEN conjunct2, THEN conjunct2,
      THEN conjunct2, THEN conjunct1, rule_format] u500 E500_retry
  obtain es4 c4 where c4: "uploadAsset (failing_world E500) (example_github False) ''dist/app.zip''
            = (Promise (Inl (RetriesExhausted es4)), c4)"
      "length (requests c4) = length (requests (example_github False)) + 3"
      "length (warnings (gh_log c4)) = length (warnings (gh_log (example_github False))) + 3"
    by auto
  have r4: "\<exists>es c'. uploadAsset (failing_world E500) (example_github False) ''dist/app.zip''
            = (Promise (Inl (RetriesExhausted es)), c')
          \<and> length (requests c') = 3 \<and> length (warnings (gh_log c')) = 3"
    using c4 by (intro exI [of _ es4] exI [of _ c4]) (simp add: start)
  note pins = t500 [THEN conjunct2, THEN conjunct2, THEN conjunct2, THEN conjunct2, THEN conjunct2,
      THEN conjunct2, THEN conjunct2, THEN conjunct2, THEN conjunct2]
  note parse = pins [THEN conjunct1, rule_format]
  note digits = pins [THEN conjunct2, THEN conjunct2, THEN conjunct2, THEN conjunct2,
      THEN conjunct2, THEN conjunct2, THEN conjunct2]
  note plain = digits [THEN conjunct2, THEN conjunct2, THEN conjunct1, THEN spec, THEN mp]
  have nb: "\<forall>x\<in>set ''Internal Server Error''. x \<noteq> CHR 0x0A \<and> x \<noteq> CHR 0x0D" by simp
  have d500: "string_of_int 500 = ''500''"
    by (simp add: string_of_int_def string_of_nat.simps digit_char_def)
  have r5: "parseErrorMessage E500 = ''500 (Internal Server Error)''"
    unfolding E500_def parse plain [OF nb] d500 by simp
  have r6: "int_of_digits (string_of_int 500) = 500"
    using digits [THEN conjunct1, rule_format, of 500] by simp
  have r7: "list_all is_digit (string_of_int 500)"
    using digits [THEN conjunct2, THEN conjunct1, rule_format, of 500] by simp
  show ?thesis
    by (intro conjI) (rule live s422 s500 r1 r2 r3 r4 r5 r6 r7)+
qed

lemma release_retry_state:
  "retry_from (release_attempt w a) n k errs c = (r, c') \<Longrightarrow>
     (case r of
        Inr d \<Rightarrow> releaseUrl c' = rd_html_url d \<and> uploadUrl c' = rd_upload_url d
                 \<and> version c' = r_version a \<and> isReleased c'
      | Inl e \<Rightarrow> releaseUrl c' = releaseUrl c \<and> uploadUrl c' = uploadUrl c
                 \<and> version c' = version c \<and> isReleased c' = isReleased c)"
proof (induction k arbitrary: n errs c)
  case 0
  then show ?case
    by (auto simp: release_attempt_def Let_def split: outcome.splits if_splits)
next
  case (Suc k)
  show ?case
  proof (cases "createRelease w n (create_request_of w c a)")
    case (Ok d)
    from release_attempt_ok [OF Ok] Suc.prems show ?thesis
      by auto
  next
    case (Fail err)
    show ?thesis
    proof (cases "includes_status NO_RETRIES_NEEDED (status err)")
      case True
      from release_attempt_bail [OF Fail True] Suc.prems show ?thesis
        by auto
    next
      case False
      let ?c1 = "c\<lparr>requests := requests c @ [CreateRelease (create_request_of w c a)],
          gh_log := gh_log c @ [LogWarn (parseErrorMessage err)]\<rparr>"
      from release_attempt_throw [OF Fail False] Suc.prems
      have "retry_from (release_attempt w a) (Suc n) k (errs @ [err]) ?c1 = (r, c')"
        by simp
      from Suc.IH [OF this] show ?thesis
        by (auto split: sum.splits)
    qed
  qed
qed

lemma release_gh_state:
  assumes "\<not> isDryRun (gh_options c)" and "release_gh w c a = (r, c')"
  shows "(case r of
        Inr x \<Rightarrow> (\<exists>d. x = Some d \<and> releaseUrl c' = rd_html_url d \<and> uploadUrl c' = rd_upload_url d)
                 \<and> version c' = r_version a \<and> isReleased c'
      | Inl e \<Rightarrow> releaseUrl c' = releaseUrl c \<and> uploadUrl c' = uploadUrl c
                 \<and> version c' = version c \<and> isReleased c' = isReleased c)"
proof -
  let ?c1 = "c\<lparr>gh_log := gh_log c @ [LogExec ''octokit releases#createRelease'']\<rparr>"
  let ?c2 = "snd (getGithubClient w ?c1)"
  obtain r0 c3 where rt: "retry_from (release_attempt w a) 1 2 [] ?c2 = (r0, c3)"
    by (cases "retry_from (release_attempt w a) 1 2 [] ?c2")
  with assms have r: "r = map_sum id Some r0" and c': "c' = c3"
    by (auto simp: release_gh_def retry_def Let_def split: sum.splits)
  from release_retry_state [OF rt] show ?thesis
    unfolding r c' by (auto simp: getGithubClient_keeps split: sum.splits)
qed

lemma release_gh_dry:
  "isDryRun (gh_options c) \<Longrightarrow>
     release_gh w c a =
       (Inr None, c\<lparr>gh_log := gh_log c @ [LogExec ''octokit releases#createRelease'', LogDry]\<rparr>)"
  by (simp add: release_gh_def Let_def)

lemma uploadAssets_dry:
  "isDryRun (gh_options c) \<Longrightarrow>
     uploadAssets w c =
       (Inr None,
        if truthy (assets (gh_options c))
        then c\<lparr>gh_log := gh_log c @ [LogExec ''octokit releases#uploadAssets'', LogDry]\<rparr>
        else c)"
  by (simp add: uploadAssets_def Let_def)

text \<open>
  C10. \<open>getReleaseUrl\<close> returns the recorded url when there is one (a url that is not
  empty: \<^verbatim>\<open>this.releaseUrl || ...\<close>), and else the fallback
  \<^verbatim>\<open>https://${host}/${repository}/releases/tag/${tag}\<close> with the tag name formatted with
  the stored version. The url recorded is the \<open>html_url\<close> of the response of a
  \<open>release\<close> that succeeded. The result depends on the world only through the template
  function: no answer of the release host is read, and the client is not changed.
\<close>

theorem getReleaseUrl_result:
  "(truthy (releaseUrl c) \<longrightarrow> getReleaseUrl w c = the (releaseUrl c))
   \<and> (\<not> truthy (releaseUrl c) \<longrightarrow>
        getReleaseUrl w c =
          ''https://'' @ repo_host (gh_repo c) @ ''/'' @ repository (gh_repo c) @ ''/releases/tag/''
            @ format w (tagName (gh_options c)) (version c))
   \<and> (format w' = format w \<longrightarrow> getReleaseUrl w' c = getReleaseUrl w c)
   \<and> (\<not> isDryRun (gh_options c) \<and> release_gh w c a = (Inr (Some d), c')
        \<longrightarrow> releaseUrl c' = rd_html_url d \<and> version c' = r_version a
          \<and> (truthy (rd_html_url d) \<longrightarrow> getReleaseUrl w c' = the (rd_html_url d)))"
proof (intro conjI impI)
  assume "\<not> isDryRun (gh_options c) \<and> release_gh w c a = (Inr (Some d), c')"
  then have "releaseUrl c' = rd_html_url d \<and> version c' = r_version a"
    using release_gh_state [of c w a "Inr (Some d)" c'] by auto
  then show "releaseUrl c' = rd_html_url d" and "version c' = r_version a"
    and "truthy (rd_html_url d) \<Longrightarrow> getReleaseUrl w c' = the (rd_html_url d)"
    by (simp_all add: getReleaseUrl_def)
qed (simp_all add: getReleaseUrl_def getReleaseUrlFallback_def)

lemma example_format_tag: "example_format ''${version}'' (Some ''1.0.1'') = ''1.0.1''"
  by simp

lemma example_format_name: "example_format ''Release ${version}'' (Some ''1.0.1'') = ''Release 1.0.1''"
  by simp

lemma example_release_ok:
  "release_gh ok_world (example_github False) example_release_args =
     (Inr (Some
        \<lparr>rd_name = ''Release 1.0.1'', rd_tag_name = ''1.0.1'',
         rd_html_url = Some ''https://github.com/webpro/release-it/releases/tag/1.0.1'',
         rd_upload_url = Some ''https://uploads.github.com/repos/webpro/release-it/releases/1/assets'',
         rd_location = ''https://api.github.com/repos/webpro/release-it/releases/1''\<rparr>),
      snd (release_gh ok_world (example_github False) example_release_args))"
  by (simp add: release_gh_def retry_def numeral_2_eq_2 release_attempt_def Let_def
      getGithubClient_def create_request_of_def example_github_def example_release_args_def
      ok_world_def truthy_def token_def)

theorem getReleaseUrl_result_witness:
  "\<not> truthy (releaseUrl ((example_github False)\<lparr>version := Some ''1.0.1''\<rparr>))
   \<and> getReleaseUrl ok_world ((example_github False)\<lparr>version := Some ''1.0.1''\<rparr>)
        = ''https://github.com/webpro/release-it/releases/tag/1.0.1''
   \<and> truthy (releaseUrl ((example_github False)\<lparr>releaseUrl := Some ''https://example.org/r/1''\<rparr>))
   \<and> getReleaseUrl ok_world ((example_github False)\<lparr>releaseUrl := Some ''https://example.org/r/1''\<rparr>)
        = ''https://example.org/r/1''
   \<and> \<not> isDryRun (gh_options (example_github False))
   \<and> getReleaseUrl ok_world (snd (release_gh ok_world (example_github False) example_release_args))
        = ''https://github.com/webpro/release-it/releases/tag/1.0.1''"
proof -
  let ?c1 = "(example_github False)\<lparr>version := Some ''1.0.1''\<rparr>"
  let ?c2 = "(example_github False)\<lparr>releaseUrl := Some ''https://example.org/r/1''\<rparr>"
  let ?d = "\<lparr>rd_name = ''Release 1.0.1'', rd_tag_name = ''1.0.1'',
         rd_html_url = Some ''https://github.com/webpro/release-it/releases/tag/1.0.1'',
         rd_upload_url = Some ''https://uploads.github.com/repos/webpro/release-it/releases/1/assets'',
         rd_location = ''https://api.github.com/repos/webpro/release-it/releases/1''\<rparr>"
  have n1: "\<not> truthy (releaseUrl ?c1)" by (simp add: example_github_def truthy_def)
  have n2: "truthy (releaseUrl ?c2)" by (simp add: truthy_def)
  have live: "\<not> isDryRun (gh_options (example_github False))" by (simp add: example_github_def)
  have tr: "truthy (rd_html_url ?d)" by (simp add: truthy_def)
  from getReleaseUrl_result [of ?c1 ok_world ok_world, THEN conjunct2, THEN conjunct1, rule_format, OF n1]
  have r1: "getReleaseUrl ok_world ?c1 = ''https://github.com/webpro/release-it/releases/tag/1.0.1''"
    by (simp add: example_github_def ok_world_def)
  from getReleaseUrl_result [of ?c2 ok_world ok_world, THEN conjunct1, rule_format, OF n2]
  have r2: "getReleaseUrl ok_world ?c2 = ''https://example.org/r/1''"
    by simp
  from getReleaseUrl_result [of "example_github False" ok_world ok_world example_release_args ?d
      "snd (release_gh ok_world (example_github False) example_release_args)",
      THEN conjunct2, THEN conjunct2, THEN conjunct2, rule_format,
      OF conjI [OF live example_release_ok]] tr
  have r3: "getReleaseUrl ok_world (snd (release_gh ok_world (example_github False) example_release_args))
        = ''https://github.com/webpro/release-it/releases/tag/1.0.1''"
    by simp
  show ?thesis
    by (intro conjI) (rule n1 r1 n2 r2 live r3)+
qed

lemma publish_command_dry:
  "isDryRun (options n) \<Longrightarrow> \<exists>p. publish_command pre n pa = p @ ''--dry-run''"
  by (simp add: publish_command_def Let_def)

lemma publish_calls:
  "publish pre sh c a answers = Some (r, c') \<Longrightarrow>
     \<exists>more. shell_calls c' = shell_calls c @
           \<lparr>command = publish_command pre c a, isReadOnly = True, verbose = isDryRun (options c)\<rparr> # more
       \<and> (isDryRun (options c) \<longrightarrow>
            (\<forall>sc \<in> set more. isReadOnly sc \<and> verbose sc \<and> (\<exists>p. command sc = p @ ''--dry-run'')))"
proof (induction answers arbitrary: c a)
  case Nil
  then show ?case
    by (auto simp: publish.simps [of pre sh c a "[]"] Let_def split: option.splits if_splits)
next
  case (Cons ans rest)
  show ?case
  proof (cases "sh (length (shell_calls c)) (publish_command pre c a)")
    case None
    with Cons.prems show ?thesis
      by (auto simp: publish.simps [of pre sh c a "ans # rest"] Let_def)
  next
    case (Some err)
    show ?thesis
    proof (cases "contains ''one-time pass'' err \<and> isInteractive (options c) \<and> p_otpPrompt a")
      case False
      with Some Cons.prems show ?thesis
        by (auto simp: publish.simps [of pre sh c a "ans # rest"] Let_def split: if_splits)
    next
      case True
      let ?call = "\<lparr>command = publish_command pre c a, isReadOnly = True, verbose = isDryRun (options c)\<rparr>"
      let ?c1 = "c\<lparr>shell_calls := shell_calls c @ [?call]\<rparr>"
      let ?c2 = "(if effective_otp c a \<noteq> None
                         then ?c1\<lparr>npm_log := npm_log ?c1 @ [LogWarn OTP_WARNING]\<rparr> else ?c1)"
      let ?c3 = "?c2\<lparr>otp_prompts := Suc (otp_prompts ?c2)\<rparr>"
      let ?a' = "a\<lparr>p_tag := effective_tag c a, p_otp := Some ans\<rparr>"
      from True Some Cons.prems have rec: "publish pre sh ?c3 ?a' rest = Some (r, c')"
        by (simp add: publish.simps [of pre sh c a "ans # rest"] Let_def)
      have sc3: "shell_calls ?c3 = shell_calls c @ [?call]" and o3: "options ?c3 = options c"
        by simp_all
      from Cons.IH [OF rec] obtain more where
        m: "shell_calls c' = shell_calls ?c3 @
              \<lparr>command = publish_command pre ?c3 ?a', isReadOnly = True, verbose = isDryRun (options ?c3)\<rparr> # more"
           "isDryRun (options ?c3) \<longrightarrow>
              (\<forall>sc \<in> set more. isReadOnly sc \<and> verbose sc \<and> (\<exists>p. command sc = p @ ''--dry-run''))"
        by blast
      let ?call' = "\<lparr>command = publish_command pre ?c3 ?a', isReadOnly = True, verbose = isDryRun (options c)\<rparr>"
      from m(1) have e: "shell_calls c' = shell_calls c @ ?call # (?call' # more)"
        unfolding sc3 o3 by simp
      have "isDryRun (options c) \<longrightarrow>
              (\<forall>sc \<in> set (?call' # more). isReadOnly sc \<and> verbose sc \<and> (\<exists>p. command sc = p @ ''--dry-run''))"
        using m(2) publish_command_dry [of ?c3 pre ?a'] unfolding o3 by auto
      with e show ?thesis by blast
    qed
  qed
qed

text \<open>
  C4, as the code has it. In dry-run mode \<open>release\<close> and \<open>uploadAssets\<close> resolve to
  \<open>undefined\<close> without a request to the release host, and they change nothing in the
  client but its log: \<open>isReleased\<close>, \<open>version\<close>, \<open>releaseUrl\<close> and \<open>uploadUrl\<close> stay
  as they were. \<open>publish\<close> in dry-run mode runs the publish command, whose last argument
  is then \<open>--dry-run\<close>, as a read-only and verbose command, and marks the client as
  published when the command succeeds.
\<close>

theorem dry_run_behaviour:
  "(isDryRun (gh_options c) \<longrightarrow>
      release_gh w c a =
        (Inr None, c\<lparr>gh_log := gh_log c @ [LogExec ''octokit releases#createRelease'', LogDry]\<rparr>)
      \<and> uploadAssets w c =
        (Inr None,
         if truthy (assets (gh_options c))
         then c\<lparr>gh_log := gh_log c @ [LogExec ''octokit releases#uploadAssets'', LogDry]\<rparr>
         else c))
   \<and> (isDryRun (options n) \<longrightarrow>
      (\<exists>p. publish_command pre n pa = p @ ''--dry-run'')
      \<and> (\<forall>r n'. publish pre sh n pa answers = Some (r, n') \<longrightarrow>
            (\<exists>more. shell_calls n' = shell_calls n @
                 \<lparr>command = publish_command pre n pa, isReadOnly = True, verbose = True\<rparr> # more
               \<and> (\<forall>sc \<in> set more. isReadOnly sc \<and> verbose sc \<and> (\<exists>p. command sc = p @ ''--dry-run''))))
      \<and> (sh (length (shell_calls n)) (publish_command pre n pa) = None \<longrightarrow>
            publish pre sh n pa answers =
              Some (Inr (),
                n\<lparr>shell_calls := shell_calls n @
                     [\<lparr>command = publish_command pre n pa, isReadOnly = True, verbose = True\<rparr>],
                  isPublished := True\<rparr>)))"
proof (intro conjI impI allI)
  fix r n' assume d: "isDryRun (options n)" and p: "publish pre sh n pa answers = Some (r, n')"
  from publish_calls [OF p] d
  show "\<exists>more. shell_calls n' = shell_calls n @
                 \<lparr>command = publish_command pre n pa, isReadOnly = True, verbose = True\<rparr> # more
               \<and> (\<forall>sc \<in> set more. isReadOnly sc \<and> verbose sc \<and> (\<exists>p. command sc = p @ ''--dry-run''))"
    by auto
next
  assume "isDryRun (options n)" and "sh (length (shell_calls n)) (publish_command pre n pa) = None"
  then show "publish pre sh n pa answers =
              Some (Inr (),
                n\<lparr>shell_calls := shell_calls n @
                     [\<lparr>command = publish_command pre n pa, isReadOnly = True, verbose = True\<rparr>],
                  isPublished := True\<rparr>)"
    by (simp add: publish.simps [of pre sh n pa answers] Let_def)
qed (simp_all add: release_gh_dry uploadAssets_dry publish_command_dry)

text \<open>
  C4 as stated fails: after \<open>release\<close> in dry-run mode the client is not marked as
  released and holds neither a version nor a url, whereas after a real release it is
  marked.
\<close>

theorem dry_run_marks_state_counterexample:
  "isDryRun (gh_options (example_github True))
   \<and> \<not> isReleased (snd (release_gh ok_world (example_github True) example_release_args))
   \<and> version (snd (release_gh ok_world (example_github True) example_release_args)) = None
   \<and> releaseUrl (snd (release_gh ok_world (example_github True) example_release_args)) = None
   \<and> isReleased (snd (release_gh ok_world (example_github False) example_release_args))"
proof -
  have d: "isDryRun (gh_options (example_github True))" by (simp add: example_github_def)
  have l: "\<not> isDryRun (gh_options (example_github False))" by (simp add: example_github_def)
  from release_gh_state [OF l example_release_ok]
  have "isReleased (snd (release_gh ok_world (example_github False) example_release_args))"
    by simp
  with d show ?thesis
    by (simp add: release_gh_dry [OF d]) (simp add: example_github_def)
qed

theorem dry_run_behaviour_witness:
  "isDryRun (gh_options (example_github True))
   \<and> release_gh ok_world (example_github True) example_release_args =
        (Inr None, (example_github True)\<lparr>gh_log := [LogExec ''octokit releases#createRelease'', LogDry]\<rparr>)
   \<and> uploadAssets ok_world (example_github True) =
        (Inr None, (example_github True)\<lparr>gh_log := [LogExec ''octokit releases#uploadAssets'', LogDry]\<rparr>)
   \<and> isDryRun (options (example_npm False True))
   \<and> succeeds (length (shell_calls (example_npm False True)))
        (publish_command semver_prerelease (example_npm False True) example_publish_args) = None
   \<and> publish semver_prerelease succeeds (example_npm False True) example_publish_args [] =
        Some (Inr (),
          (example_npm False True)
            \<lparr>shell_calls :=
               [\<lparr>command = ''npm publish . --tag latest  --otp 000000 --dry-run'', isReadOnly = True,
                 verbose = True\<rparr>],
             isPublished := True\<rparr>)"
proof -
  have d: "isDryRun (gh_options (example_github True))" by (simp add: example_github_def)
  have dn: "isDryRun (options (example_npm False True))" by (simp add: example_npm_def)
  have ok: "succeeds (length (shell_calls (example_npm False True)))
        (publish_command semver_prerelease (example_npm False True) example_publish_args) = None"
    by (simp add: succeeds_def)
  note t = dry_run_behaviour [of "example_github True" ok_world example_release_args
      "example_npm False True" semver_prerelease example_publish_args succeeds "[]"]
  from t [THEN conjunct1, rule_format, OF d]
  have r1: "release_gh ok_world (example_github True) example_release_args =
        (Inr None, (example_github True)\<lparr>gh_log := [LogExec ''octokit releases#createRelease'', LogDry]\<rparr>)"
    and r2: "uploadAssets ok_world (example_github True) =
        (Inr None, (example_github True)\<lparr>gh_log := [LogExec ''octokit releases#uploadAssets'', LogDry]\<rparr>)"
    by (simp_all add: example_github_def truthy_def)
  from t [THEN conjunct2, rule_format, OF dn, THEN conjunct2, THEN conjunct2, rule_format, OF ok]
  have r3: "publish semver_prerelease succeeds (example_npm False True) example_publish_args [] =
        Some (Inr (),
          (example_npm False True)
            \<lparr>shell_calls :=
               [\<lparr>command = ''npm publish . --tag latest  --otp 000000 --dry-run'', isReadOnly = True,
                 verbose = True\<rparr>],
             isPublished := True\<rparr>)"
    by (simp add: example_command) (simp add: example_npm_def)
  show ?thesis
    by (intro conjI) (rule d r1 r2 dn ok r3)+
qed

section \<open>Properties of the pipeline\<close>

lemma run_steps_halted [simp]: "halted s \<Longrightarrow> run_steps fs s = s"
  by (cases fs) simp_all

lemma run_steps_append: "run_steps (xs @ ys) s = run_steps ys (run_steps xs s)"
  by (induction xs arbitrary: s) simp_all

lemma emitsI:
  assumes "\<And>s. \<exists>ev. trace (f s) = trace s @ ev \<and> list_all Q ev"
  shows "emits Q f"
  using assms by (simp add: emits_def)

lemma emitsD: "emits Q f \<Longrightarrow> \<exists>ev. trace (f s) = trace s @ ev \<and> list_all Q ev"
  by (simp add: emits_def)

lemma emits_mono:
  assumes "emits Q f" and "\<And>e. Q e \<Longrightarrow> R e"
  shows "emits R f"
proof (rule emitsI)
  fix s
  from emitsD [OF assms(1), of s] obtain ev where ev: "trace (f s) = trace s @ ev" "list_all Q ev"
    by blast
  from ev(2) assms(2) have "list_all R ev" by (simp add: list_all_iff)
  with ev(1) show "\<exists>ev. trace (f s) = trace s @ ev \<and> list_all R ev" by blast
qed











lemma trace_set_gh_client [simp]: "trace (set_gh_client t c s) = trace s"
  by (cases t) (simp_all add: set_gh_client_def)

lemma trace_set_npm_client [simp]: "trace (set_npm_client t c s) = trace s"
  by (cases t) (simp_all add: set_npm_client_def)











lemma show_step_False [simp]: "show_step False f s = s"
  by (simp add: show_step_def)

lemma show_step_True [simp]: "show_step True f s = f s"
  by (simp add: show_step_def)

lemma guarded_False [simp]: "guarded False f s = s"
  by (simp add: guarded_def)

lemma guarded_True [simp]: "guarded True f s = f s"
  by (simp add: guarded_def)

lemma halted_emit [simp]: "halted (emit e s) = halted s"
  by (simp add: halted_def emit_def)


lemma summary_steps_run:
  "\<not> halted s \<Longrightarrow> \<not> halted (run_steps (summary_steps cfg co) s)
      \<and> last (trace (run_steps (summary_steps cfg co) s)) = Done"
  by (simp add: summary_steps_def guarded_def halted_def emit_def)

lemmas client_defs =
  validate_def token_def get_process_env_def one_key_def plain_name_def is_word_char_def
  is_digit_def is_letter_def truthy_js_def truthy_def uploadAssets_def uploadAsset_def
  upload_attempt_def upload_all_def promise_all_def rejections_def resolutions_def
  List.map_filter_def getGithubClient_def retry_def numeral_2_eq_2 includes_status_def
  NO_RETRIES_NEEDED_def status_def basename_def Let_def

lemma example_config_fields [simp]:
  "isInteractive (example_config i m g d) = i"
  "isDryRun (example_config i m g d) = False"
  "isCollectMetrics (example_config i m g d) = m"
  "cfg_scripts (example_config i m g d) = no_scripts"
  "pkgFiles (example_config i m g d) = True"
  "requireCleanWorkingDir (example_config i m g d) = True"
  "increment (example_config i m g d) = Some ''patch''"
  "primary_options (example_config i m g d) = g"
  "dist_options (example_config i m g d) = g"
  "dist_repo (example_config i m g d) = d"
  "dist_beforeStage (example_config i m g d) = None"
  by (simp_all add: example_config_def)

lemma no_scripts_fields [simp]:
  "beforeStart no_scripts = None" "beforeBump no_scripts = None" "afterBump no_scripts = None"
  "beforeStage no_scripts = None" "afterRelease no_scripts = None"
  by (simp_all add: no_scripts_def)

lemma example_collab_fields [simp]:
  "fails (example_collab w) n e = None"
  "bump_version (example_collab w) inc = Inr (Some ''1.0.1'')"
  "details_isPreRelease (example_collab w) v = False"
  "isRecommendation (example_collab w) = False"
  "choose_increment (example_collab w) = None"
  "type_version (example_collab w) = None"
  "confirm (example_collab w) t q = True"
  "ungated_runs (example_collab w) = False"
  "otp_answers (example_collab w) t = []"
  "changelog_text (example_collab w) = Some ''* Fix bug''"
  "shouldTag (example_collab w) = True"
  "gh_world (example_collab w) = w"
  "npm_shell (example_collab w) t = succeeds"
  "prerelease_of (example_collab w) = semver_prerelease"
  by (simp_all add: example_collab_def)

lemma example_start_fields [simp]:
  "trace example_start = []" "failed example_start = None" "waiting example_start = False"
  "v_version example_start = None" "changelog example_start = None"
  "ghClient example_start = example_github False" "ghDistClient example_start = example_github False"
  "npmClient example_start = example_npm False False"
  "npmDistClient example_start = example_npm False False"
  by (simp_all add: example_start_def start_def)

lemma example_github_validate [simp]:
  "validate ok_world (example_github d) = Inr ()"
  "validate (failing_world e) (example_github d) = Inr ()"
  "validate no_url_world (example_github d) = Inr ()"
  "validate no_url_world assets_only_github = Inr ()"
  by (simp_all add: client_defs example_github_def assets_only_github_def ok_world_def
      failing_world_def no_url_world_def)

lemma assets_only_start_fields [simp]:
  "trace assets_only_start = []" "failed assets_only_start = None"
  "waiting assets_only_start = False" "v_version assets_only_start = None"
  "changelog assets_only_start = None"
  "ghClient assets_only_start = assets_only_github"
  "ghDistClient assets_only_start = assets_only_github"
  "npmClient assets_only_start = example_npm False False"
  "npmDistClient assets_only_start = example_npm False False"
  by (simp_all add: assets_only_start_def start_def)

lemma assets_only_github_fields [simp]:
  "isReleased assets_only_github = False" "requests assets_only_github = []"
  "isPublished (example_npm i d) = False"
  by (simp_all add: assets_only_github_def example_github_def example_npm_def)

lemma assets_only_upload:
  "uploadAssets no_url_world assets_only_github =
     (Inl (GithubClientError ''400 (Empty value for parameter url)''),
      assets_only_github
        \<lparr>client := Some \<lparr>baseUrl = ''https://api.github.com'', client_timeout = 0,
                          client_proxy = None, auth_token = Str ''secret''\<rparr>,
         gh_log := [LogExec ''octokit releases#uploadAssets''],
         requests := [UploadReleaseAsset
           \<lparr>up_url = None, up_file = ''dist/app.zip'', up_name = ''app.zip'',
            up_content_type = ''application/zip'', up_content_length = 1024\<rparr>]\<rparr>)"
  by (simp add: client_defs assets_only_github_def example_github_def no_url_world_def ok_world_def
      parseErrorMessage_def E400_def string_of_int_def string_of_nat.simps digit_char_def)

lemmas step_defs =
  pipeline_def resolve_steps_def release_steps_def stage_steps_def dist_release_steps_def
  summary_steps_def release_group_def group_substeps_def catch_block_def
  guarded_def show_step_def prompt_confirm_def run_hook_def external_def emit_def halted_def
  github_validate_def release_call_def github_release_step_def github_uploadAssets_def
  releaseAndUploadAssets_def npm_publish_step_def version_bump_def version_prompt_def
  version_validate_def get_changelog_def gh_client_def set_gh_client_def npm_client_def
  set_npm_client_def

text \<open>
  C5. In a non-interactive run the asset upload of the step group is gated by
  \<^verbatim>\<open>github.assets\<close> alone, not by the creation of a release. With the five gates false
  and asset globs configured, the upload executes although no release was created: its
  request has no upload url, the release host rejects it, and the run is aborted in the
  step group, before the summary. In the same world the run completes when the release
  gate is true as well, and in the interactive mode, where the upload follows a created
  release only, it completes without any request when the prompt skips a question whose
  gate is false.
\<close>

theorem ungated_asset_upload:
  "five_gates_false (gates_off\<lparr>github_assets := True\<rparr>)
   \<and> failed (pipeline (example_config False False (gates_off\<lparr>github_assets := True\<rparr>) None)
        (example_collab no_url_world) assets_only_start)
      = Some (GithubClientError ''400 (Empty value for parameter url)'')
   \<and> trace (pipeline (example_config False False (gates_off\<lparr>github_assets := True\<rparr>) None)
        (example_collab no_url_world) assets_only_start)
      = [GitInit Primary, GitValidate, ValidateStageDir, GithubValidate Primary,
         GithubValidate Dist, ShowWarnings, VersionBump (Some ''patch''), GetChangelog,
         VersionValidate, BumpFiles Primary (Some ''1.0.1''), Stage Primary, StageDir Primary,
         Status Primary, GroupBegin Primary (Some ''1.0.1''), GithubUploadAssets Primary]
   \<and> requests (ghClient (pipeline (example_config False False (gates_off\<lparr>github_assets := True\<rparr>) None)
        (example_collab no_url_world) assets_only_start))
      = [UploadReleaseAsset
           \<lparr>up_url = None, up_file = ''dist/app.zip'', up_name = ''app.zip'',
            up_content_type = ''application/zip'', up_content_length = 1024\<rparr>]
   \<and> \<not> isReleased (ghClient (pipeline (example_config False False (gates_off\<lparr>github_assets := True\<rparr>) None)
        (example_collab no_url_world) assets_only_start))
   \<and> failed (pipeline (example_config True False (gates_off\<lparr>github_assets := True\<rparr>) None)
        (example_collab no_url_world) assets_only_start) = None
   \<and> trace (pipeline (example_config True False (gates_off\<lparr>github_assets := True\<rparr>) None)
        (example_collab no_url_world) assets_only_start)
      = [GitInit Primary, GitValidate, ValidateStageDir, GithubValidate Primary,
         GithubValidate Dist, ShowWarnings, VersionBump (Some ''patch''), GetChangelog,
         VersionValidate, ArmInterruptGuard, BumpFiles Primary (Some ''1.0.1''), Stage Primary,
         StageDir Primary, Status Primary, GroupBegin Primary (Some ''1.0.1''), GroupEnd Primary,
         Done]
   \<and> requests (ghClient (pipeline (example_config True False (gates_off\<lparr>github_assets := True\<rparr>) None)
        (example_collab no_url_world) assets_only_start)) = []"
  by (simp add: five_gates_false_def step_defs gates_off_def truthy_def Let_def
      assets_only_upload)

lemma validate_cases:
  "validate w c =
     (if release (gh_options c) \<and> \<not> truthy_js (token w c)
      then Inl (GithubTokenError (tokenRef (gh_options c))) else Inr ())"
  by (simp add: validate_def)

lemma emit_fields [simp]:
  "trace (emit e s) = trace s @ [e]" "failed (emit e s) = failed s" "waiting (emit e s) = waiting s"
  "v_version (emit e s) = v_version s" "ghClient (emit e s) = ghClient s"
  "ghDistClient (emit e s) = ghDistClient s" "npmClient (emit e s) = npmClient s"
  "npmDistClient (emit e s) = npmDistClient s"
  by (simp_all add: emit_def)

lemma external_fields [simp]:
  "trace (external co e s) = trace s @ [e]"
  "failed (external co e s) =
     (case fails co (length (trace s)) e of None \<Rightarrow> failed s | Some m \<Rightarrow> Some (Rejected m))"
  "waiting (external co e s) = waiting s"
  "v_version (external co e s) = v_version s" "ghClient (external co e s) = ghClient s"
  "ghDistClient (external co e s) = ghDistClient s" "npmClient (external co e s) = npmClient s"
  "npmDistClient (external co e s) = npmDistClient s"
  by (simp_all add: external_def split: option.splits)

lemma start_fields [simp]:
  "trace (start gh ghd np npd) = []" "failed (start gh ghd np npd) = None"
  "waiting (start gh ghd np npd) = False" "v_version (start gh ghd np npd) = None"
  "ghClient (start gh ghd np npd) = gh" "ghDistClient (start gh ghd np npd) = ghd"
  "npmClient (start gh ghd np npd) = np" "npmDistClient (start gh ghd np npd) = npd"
  by (simp_all add: start_def)

text \<open>The steps before the validation of the release clients (lines 28 to 45), and the
  two validations (lines 56 and 57).\<close>

lemma resolve_steps_split:
  "resolve_steps cfg co =
     [guarded (isCollectMetrics cfg) (emit (TrackEvent ''start'')),
      external co (GitInit Primary), external co GitValidate, external co ValidateStageDir]
     @ [github_validate co Primary, github_validate co Dist] @ drop 6 (resolve_steps cfg co)"
  by (simp add: resolve_steps_def)

lemma before_validation:
  fixes cfg co gh ghd np npd
  defines "sa \<equiv> run_steps
     [guarded (isCollectMetrics cfg) (emit (TrackEvent ''start'')),
      external co (GitInit Primary), external co GitValidate, external co ValidateStageDir]
     (start gh ghd np npd)"
  shows "ghClient sa = gh \<and> ghDistClient sa = ghd \<and> npmClient sa = np \<and> npmDistClient sa = npd"
    and "list_all before_release_host (trace sa)"
    and "\<not> waiting sa"
    and "(\<forall>n. fails co n (GitInit Primary) = None \<and> fails co n GitValidate = None
              \<and> fails co n ValidateStageDir = None)
         \<longrightarrow> failed sa = None
           \<and> trace sa = (if isCollectMetrics cfg then [TrackEvent ''start''] else [])
               @ [GitInit Primary, GitValidate, ValidateStageDir]"
  unfolding sa_def
  by (auto simp: guarded_def halted_def before_release_host_def split: option.splits)

lemma pipeline_halted:
  "halted (run_steps (resolve_steps cfg co) s) \<Longrightarrow>
     pipeline cfg co s = catch_block cfg (run_steps (resolve_steps cfg co) s)"
  by (simp add: pipeline_def Let_def)

lemma github_validate_fields:
  "trace (github_validate co t s) = trace s @ [GithubValidate t]"
  "failed (github_validate co t s) =
     (case validate (gh_world co) (gh_client t s) of Inl e \<Rightarrow> Some e | Inr u \<Rightarrow> failed s)"
  "waiting (github_validate co t s) = waiting s"
  "ghClient (github_validate co t s) = ghClient s"
  "ghDistClient (github_validate co t s) = ghDistClient s"
  "npmClient (github_validate co t s) = npmClient s"
  "npmDistClient (github_validate co t s) = npmDistClient s"
  by (simp_all add: github_validate_def split: sum.splits)

lemma failed_validation_run:
  fixes cfg co gh ghd np npd e
  assumes v: "validate (gh_world co) gh = Inl e
      \<or> (validate (gh_world co) gh = Inr () \<and> validate (gh_world co) ghd = Inl e)"
  defines "s' \<equiv> pipeline cfg co (start gh ghd np npd)"
  shows "failed s' \<noteq> None"
    and "list_all before_release_host (trace s')"
    and "ghClient s' = gh \<and> ghDistClient s' = ghd \<and> npmClient s' = np \<and> npmDistClient s' = npd"
    and "(\<forall>n. fails co n (GitInit Primary) = None \<and> fails co n GitValidate = None
              \<and> fails co n ValidateStageDir = None)
         \<longrightarrow> failed s' = Some e
           \<and> trace s' = (if isCollectMetrics cfg then [TrackEvent ''start''] else [])
               @ [GitInit Primary, GitValidate, ValidateStageDir, GithubValidate Primary]
               @ (if validate (gh_world co) gh = Inr () then [GithubValidate Dist] else [])
               @ (if isCollectMetrics cfg then [TrackException] else [])"
proof -
  let ?pre = "[guarded (isCollectMetrics cfg) (emit (TrackEvent ''start'')),
      external co (GitInit Primary), external co GitValidate, external co ValidateStageDir]"
  define sa where "sa = run_steps ?pre (start gh ghd np npd)"
  note a = before_validation [where cfg=cfg and co=co and gh=gh and ghd=ghd and np=np and npd=npd,
      folded sa_def]
  define sb where "sb = run_steps [github_validate co Primary, github_validate co Dist] sa"
  have sb: "sb = (if halted sa then sa
                  else if halted (github_validate co Primary sa) then github_validate co Primary sa
                  else github_validate co Dist (github_validate co Primary sa))"
    by (simp add: sb_def)
  have cl: "gh_client Primary sa = gh"
    "gh_client Dist (github_validate co Primary sa) = ghd"
    using a(1) by (simp_all add: gh_client_def github_validate_fields)
  have hb: "halted sb"
    using v by (auto simp: sb halted_def github_validate_fields cl)
  have "run_steps (resolve_steps cfg co) (start gh ghd np npd)
          = run_steps (drop 6 (resolve_steps cfg co)) sb"
    by (subst resolve_steps_split) (simp only: run_steps_append sa_def sb_def)
  also have "\<dots> = sb"
    by (rule run_steps_halted [OF hb])
  finally have s1: "run_steps (resolve_steps cfg co) (start gh ghd np npd) = sb" .
  have s': "s' = catch_block cfg sb"
    unfolding s'_def using pipeline_halted [of cfg co "start gh ghd np npd"] hb s1 by simp
  have wb: "\<not> waiting sb"
    using a(3) by (simp add: sb github_validate_fields)
  have fb: "failed sb \<noteq> None"
    using hb wb by (simp add: halted_def)
  show "failed s' \<noteq> None"
    using fb by (simp add: s' catch_block_def)
  show "list_all before_release_host (trace s')"
    using a(2) by (simp add: s' catch_block_def sb github_validate_fields before_release_host_def)
  show "ghClient s' = gh \<and> ghDistClient s' = ghd \<and> npmClient s' = np \<and> npmDistClient s' = npd"
    using a(1) by (simp add: s' catch_block_def sb github_validate_fields)
  show "(\<forall>n. fails co n (GitInit Primary) = None \<and> fails co n GitValidate = None
              \<and> fails co n ValidateStageDir = None)
         \<longrightarrow> failed s' = Some e
           \<and> trace s' = (if isCollectMetrics cfg then [TrackEvent ''start''] else [])
               @ [GitInit Primary, GitValidate, ValidateStageDir, GithubValidate Primary]
               @ (if validate (gh_world co) gh = Inr () then [GithubValidate Dist] else [])
               @ (if isCollectMetrics cfg then [TrackException] else [])"
    using a(4) v
    by (auto simp: s' catch_block_def sb halted_def github_validate_fields cl a(3))
qed

lemma token_one_key:
  "one_key w (tokenRef (gh_options c)) \<Longrightarrow>
     token w c = (if process_env w (tokenRef (gh_options c)) = Undefined then Null
                  else process_env w (tokenRef (gh_options c)))"
  by (simp add: token_def get_process_env_def)

text \<open>
  C8, as the code has it. The token of a release client is what
  \<^verbatim>\<open>_.get(process.env, tokenRef, null)\<close> reads: for a \<open>tokenRef\<close> that is one key, such as
  a plain name, the variable of that name, and \<open>null\<close> when the environment has none.
  \<open>validate\<close> fails with GithubTokenError exactly when a release is requested and the
  token is falsy, so it fails for a plain name whose variable is absent or empty; when
  no release is requested it raises no error. The run validates the primary release
  client and then the one for the distribution repository. When one of the two
  validations fails, the run is aborted: its trace holds only the checks of the
  version-control client, the validations and the events of the metrics beacon, and the
  four clients are as they were at the start, so no request of a release client was
  sent and no publish command was run. When the checks of the version-control client
  pass, the error is that of the first validation that fails. The start event of the
  metrics beacon, a network call, comes before the validation when metrics are
  collected.
\<close>

theorem token_validation:
  "validate w c =
     (if release (gh_options c) \<and> \<not> truthy_js (token w c)
      then Inl (GithubTokenError (tokenRef (gh_options c))) else Inr ())
   \<and> token w c = get_process_env w (tokenRef (gh_options c)) Null
   \<and> (one_key w (tokenRef (gh_options c)) \<longrightarrow>
        token w c = (if process_env w (tokenRef (gh_options c)) = Undefined then Null
                     else process_env w (tokenRef (gh_options c))))
   \<and> (plain_name (tokenRef (gh_options c)) \<and> release (gh_options c)
        \<and> (process_env w (tokenRef (gh_options c)) = Undefined
             \<or> process_env w (tokenRef (gh_options c)) = Str [])
      \<longrightarrow> validate w c = Inl (GithubTokenError (tokenRef (gh_options c))))
   \<and> (validate (gh_world co) gh = Inl e
        \<or> (validate (gh_world co) gh = Inr () \<and> validate (gh_world co) ghd = Inl e) \<longrightarrow>
        failed (pipeline cfg co (start gh ghd np npd)) \<noteq> None
        \<and> list_all before_release_host (trace (pipeline cfg co (start gh ghd np npd)))
        \<and> ghClient (pipeline cfg co (start gh ghd np npd)) = gh
        \<and> ghDistClient (pipeline cfg co (start gh ghd np npd)) = ghd
        \<and> npmClient (pipeline cfg co (start gh ghd np npd)) = np
        \<and> npmDistClient (pipeline cfg co (start gh ghd np npd)) = npd
        \<and> ((\<forall>n. fails co n (GitInit Primary) = None \<and> fails co n GitValidate = None
                \<and> fails co n ValidateStageDir = None) \<longrightarrow>
             failed (pipeline cfg co (start gh ghd np npd)) = Some e
             \<and> trace (pipeline cfg co (start gh ghd np npd))
               = (if isCollectMetrics cfg then [TrackEvent ''start''] else [])
                 @ [GitInit Primary, GitValidate, ValidateStageDir, GithubValidate Primary]
                 @ (if validate (gh_world co) gh = Inr () then [GithubValidate Dist] else [])
                 @ (if isCollectMetrics cfg then [TrackException] else [])))"
proof (intro conjI impI)
  show "validate w c =
     (if release (gh_options c) \<and> \<not> truthy_js (token w c)
      then Inl (GithubTokenError (tokenRef (gh_options c))) else Inr ())"
    by (rule validate_cases)
next
  show "token w c = get_process_env w (tokenRef (gh_options c)) Null"
    by (simp add: token_def)
next
  assume "one_key w (tokenRef (gh_options c))"
  then show "token w c = (if process_env w (tokenRef (gh_options c)) = Undefined then Null
                     else process_env w (tokenRef (gh_options c)))"
    by (rule token_one_key)
next
  assume h: "plain_name (tokenRef (gh_options c)) \<and> release (gh_options c)
        \<and> (process_env w (tokenRef (gh_options c)) = Undefined
             \<or> process_env w (tokenRef (gh_options c)) = Str [])"
  then have "one_key w (tokenRef (gh_options c))" by (simp add: one_key_def)
  from token_one_key [OF this] h
  show "validate w c = Inl (GithubTokenError (tokenRef (gh_options c)))"
    by (auto simp: validate_cases truthy_js_def)
next
  assume v: "validate (gh_world co) gh = Inl e
        \<or> (validate (gh_world co) gh = Inr () \<and> validate (gh_world co) ghd = Inl e)"
  note m = failed_validation_run [OF v, of cfg np npd]
  from m(1) show "failed (pipeline cfg co (start gh ghd np npd)) \<noteq> None" .
  from m(2) show "list_all before_release_host (trace (pipeline cfg co (start gh ghd np npd)))" .
  from m(3) show "ghClient (pipeline cfg co (start gh ghd np npd)) = gh"
    and "ghDistClient (pipeline cfg co (start gh ghd np npd)) = ghd"
    and "npmClient (pipeline cfg co (start gh ghd np npd)) = np"
    and "npmDistClient (pipeline cfg co (start gh ghd np npd)) = npd"
    by simp_all
  assume ok: "\<forall>n. fails co n (GitInit Primary) = None \<and> fails co n GitValidate = None
                \<and> fails co n ValidateStageDir = None"
  from m(4) ok show "failed (pipeline cfg co (start gh ghd np npd)) = Some e"
    and "trace (pipeline cfg co (start gh ghd np npd))
               = (if isCollectMetrics cfg then [TrackEvent ''start''] else [])
                 @ [GitInit Primary, GitValidate, ValidateStageDir, GithubValidate Primary]
                 @ (if validate (gh_world co) gh = Inr () then [GithubValidate Dist] else [])
                 @ (if isCollectMetrics cfg then [TrackException] else [])"
    by blast+
qed

lemma no_token: "\<not> truthy_js (token no_token_world (example_github d))"
  by (simp add: client_defs no_token_world_def example_github_def)

lemma example_release_requested: "release (gh_options (example_github d))"
  by (simp add: example_github_def)

lemma no_token_validate:
  "validate no_token_world (example_github d) = Inl (GithubTokenError ''GITHUB_TOKEN'')"
  "validate no_token_world assets_only_github = Inr ()"
  by (simp_all add: validate_cases no_token example_release_requested)
     (simp_all add: example_github_def assets_only_github_def)

lemma example_checks_pass:
  "\<forall>n. fails (example_collab w) n (GitInit Primary) = None
      \<and> fails (example_collab w) n GitValidate = None
      \<and> fails (example_collab w) n ValidateStageDir = None"
  by simp

text \<open>
  C8 as stated fails: with metrics collected, the start event of the metrics beacon is
  sent over the network before the validation raises GithubTokenError.
\<close>

theorem token_validation_counterexample:
  "release (gh_options (example_github False))
   \<and> \<not> truthy_js (token no_token_world (example_github False))
   \<and> failed (pipeline (example_config False True gates_on None) (example_collab no_token_world)
        example_start) = Some (GithubTokenError ''GITHUB_TOKEN'')
   \<and> trace (pipeline (example_config False True gates_on None) (example_collab no_token_world)
        example_start)
      = [TrackEvent ''start'', GitInit Primary, GitValidate, ValidateStageDir,
         GithubValidate Primary, TrackException]"
proof -
  have v: "validate (gh_world (example_collab no_token_world)) (example_github False)
             = Inl (GithubTokenError ''GITHUB_TOKEN'')
      \<or> (validate (gh_world (example_collab no_token_world)) (example_github False) = Inr ()
          \<and> validate (gh_world (example_collab no_token_world)) (example_github False)
               = Inl (GithubTokenError ''GITHUB_TOKEN''))"
    by (simp add: no_token_validate)
  from failed_validation_run(4) [OF v, of "example_config False True gates_on None"
      "example_npm False False" "example_npm False False", THEN mp,
      OF example_checks_pass]
  show ?thesis
    by (simp add: example_start_def no_token example_release_requested no_token_validate)
qed

theorem token_validation_witness:
  "plain_name ''GITHUB_TOKEN''
   \<and> release (gh_options (example_github False))
   \<and> process_env no_token_world ''GITHUB_TOKEN'' = Undefined
   \<and> validate no_token_world (example_github False) = Inl (GithubTokenError ''GITHUB_TOKEN'')
   \<and> validate no_token_world assets_only_github = Inr ()
   \<and> (\<forall>n. fails (example_collab no_token_world) n (GitInit Primary) = None
        \<and> fails (example_collab no_token_world) n GitValidate = None
        \<and> fails (example_collab no_token_world) n ValidateStageDir = None)
   \<and> failed (pipeline (example_config False False gates_on None) (example_collab no_token_world)
        example_start) = Some (GithubTokenError ''GITHUB_TOKEN'')
   \<and> trace (pipeline (example_config False False gates_on None) (example_collab no_token_world)
        example_start)
      = [GitInit Primary, GitValidate, ValidateStageDir, GithubValidate Primary]
   \<and> failed (pipeline (example_config False False gates_on None) (example_collab no_token_world)
        dist_release_start) = Some (GithubTokenError ''GITHUB_TOKEN'')
   \<and> trace (pipeline (example_config False False gates_on None) (example_collab no_token_world)
        dist_release_start)
      = [GitInit Primary, GitValidate, ValidateStageDir, GithubValidate Primary,
         GithubValidate Dist]
   \<and> \<not> one_key vtok_world ''VTOK.length''
   \<and> token vtok_world vtok_github = Num 3
   \<and> validate vtok_world vtok_github = Inr ()"
proof -
  let ?cfg = "example_config False False gates_on None"
  let ?co = "example_collab no_token_world"
  have p: "plain_name ''GITHUB_TOKEN''"
    by (simp add: plain_name_def is_word_char_def is_digit_def is_letter_def)
  have rq: "release (gh_options (example_github False))"
    by (rule example_release_requested)
  have env: "process_env no_token_world ''GITHUB_TOKEN'' = Undefined"
    by (simp add: no_token_world_def)
  have ref: "tokenRef (gh_options (example_github False)) = ''GITHUB_TOKEN''"
    by (simp add: example_github_def)
  note t1 = token_validation [of no_token_world "example_github False" ?co "example_github False"
      "GithubTokenError ''GITHUB_TOKEN''" "example_github False" ?cfg
      "example_npm False False" "example_npm False False"]
  note t2 = token_validation [of no_token_world assets_only_github ?co assets_only_github
      "GithubTokenError ''GITHUB_TOKEN''" "example_github False" ?cfg
      "example_npm False False" "example_npm False False"]
  note t3 = token_validation [of vtok_world vtok_github ?co "example_github False"
      "GithubTokenError ''GITHUB_TOKEN''" "example_github False" ?cfg
      "example_npm False False" "example_npm False False"]
  have v1: "validate no_token_world (example_github False) = Inl (GithubTokenError ''GITHUB_TOKEN'')"
    using t1 [THEN conjunct2, THEN conjunct2, THEN conjunct2, THEN conjunct1] p rq env
    by (simp add: ref)
  have v2: "validate no_token_world assets_only_github = Inr ()"
    using t2 [THEN conjunct1] by (simp add: assets_only_github_def)
  have w: "gh_world ?co = no_token_world" by simp
  have h1: "validate (gh_world ?co) (example_github False) = Inl (GithubTokenError ''GITHUB_TOKEN'')
      \<or> (validate (gh_world ?co) (example_github False) = Inr ()
          \<and> validate (gh_world ?co) (example_github False) = Inl (GithubTokenError ''GITHUB_TOKEN''))"
    unfolding w using v1 by simp
  have h2: "validate (gh_world ?co) assets_only_github = Inl (GithubTokenError ''GITHUB_TOKEN'')
      \<or> (validate (gh_world ?co) assets_only_github = Inr ()
          \<and> validate (gh_world ?co) (example_github False) = Inl (GithubTokenError ''GITHUB_TOKEN''))"
    unfolding w using v1 v2 by simp
  note r1 = t1 [THEN conjunct2, THEN conjunct2, THEN conjunct2, THEN conjunct2, THEN mp,
      OF h1, THEN conjunct2, THEN conjunct2, THEN conjunct2, THEN conjunct2, THEN conjunct2,
      THEN conjunct2, THEN mp, OF example_checks_pass]
  note r2 = t2 [THEN conjunct2, THEN conjunct2, THEN conjunct2, THEN conjunct2, THEN mp,
      OF h2, THEN conjunct2, THEN conjunct2, THEN conjunct2, THEN conjunct2, THEN conjunct2,
      THEN conjunct2, THEN mp, OF example_checks_pass]
  have f1: "failed (pipeline ?cfg ?co example_start) = Some (GithubTokenError ''GITHUB_TOKEN'')"
    and tr1: "trace (pipeline ?cfg ?co example_start)
      = [GitInit Primary, GitValidate, ValidateStageDir, GithubValidate Primary]"
    using r1 by (simp_all add: example_start_def v1)
  have f2: "failed (pipeline ?cfg ?co dist_release_start) = Some (GithubTokenError ''GITHUB_TOKEN'')"
    and tr2: "trace (pipeline ?cfg ?co dist_release_start)
      = [GitInit Primary, GitValidate, ValidateStageDir, GithubValidate Primary,
         GithubValidate Dist]"
    using r2 by (simp_all add: dist_release_start_def v2)
  have k: "\<not> one_key vtok_world ''VTOK.length''"
    by (simp add: one_key_def plain_name_def is_word_char_def is_digit_def is_letter_def
        vtok_world_def)
  have tk: "token vtok_world vtok_github = Num 3"
    using t3 [THEN conjunct2, THEN conjunct1] k
    by (simp add: get_process_env_def vtok_github_def vtok_world_def example_github_def)
  have v3: "validate vtok_world vtok_github = Inr ()"
    using t3 [THEN conjunct1] by (simp add: tk truthy_js_def)
  show ?thesis
    by (intro conjI) (rule p rq env v1 v2 example_checks_pass f1 tr1 f2 tr2 k tk v3)+
qed

section \<open>The order of the steps of a run\<close>

lemma first_then_quiet:
  "first_then e P tr \<Longrightarrow> list_all (\<lambda>x. \<not> P x) ev \<Longrightarrow> first_then e P (tr @ ev)"
proof (induction tr)
  case Nil
  then show ?case by (induction ev) auto
next
  case (Cons x tr)
  then show ?case by auto
qed














lemma catch_block_fields [simp]:
  "failed (catch_block cfg s) = failed s" "v_version (catch_block cfg s) = v_version s"
  "waiting (catch_block cfg s) = waiting s"
  by (simp_all add: catch_block_def emit_def)



lemma declining_collab_fields [simp]:
  "fails declining_collab n e = None"
  "bump_version declining_collab inc = Inr None"
  "isRecommendation declining_collab = False"
  "choose_increment declining_collab = None"
  "type_version declining_collab = None"
  "changelog_text declining_collab = Some ''* Fix bug''"
  "gh_world declining_collab = ok_world"
  by (simp_all add: declining_collab_def example_collab_def)





lemma group_marks_append [simp]: "group_marks (xs @ ys) = group_marks xs @ group_marks ys"
  by (simp add: group_marks_def)








lemma run_steps_single: "\<not> halted s \<Longrightarrow> run_steps [f] s = f s"
  by simp












lemma halted_catch_block [simp]: "halted (catch_block cfg s) = halted s"
  by (simp add: halted_def)






lemma commit_fails_collab_fields [simp]:
  "fails commit_fails_collab n e = (if e = GitCommit Primary then Some ''nothing to commit'' else None)"
  "bump_version commit_fails_collab inc = Inr (Some ''1.0.1'')"
  "details_isPreRelease commit_fails_collab v = False"
  "isRecommendation commit_fails_collab = False"
  "changelog_text commit_fails_collab = Some ''* Fix bug''"
  "gh_world commit_fails_collab = ok_world"
  by (simp_all add: commit_fails_collab_def example_collab_def)




end
